theory Spec2Isabelle
  imports Complex_Main
begin

section \<open>Data model\<close>

text \<open>
  The document tree \<^verbatim>\<open>json.Unmarshal\<close> builds when it decodes into
  \<^verbatim>\<open>map[string]interface{}\<close>: an object is a Go map from keys to values, an array a
  slice, a number a \<^verbatim>\<open>float64\<close> (never inspected by this program, held as a real).
\<close>

datatype json =
    JNull
  | JBool bool
  | JNum real
  | JStr string
  | JArr "json list"
  | JObj "string \<Rightarrow> json option"

text \<open>A Go \<^verbatim>\<open>error\<close> value, by the text its \<^verbatim>\<open>Error()\<close> method returns.\<close>

datatype go_error = GoError (Error: string)

text \<open>
  A call either returns or panics. Nothing in the program recovers, so a panic ends the
  process and the memory of the process with it.
\<close>

datatype 'a result = Panic | Return 'a

text \<open>
  The package-level variables of \<^verbatim>\<open>core.go\<close> that the program assigns: \<^verbatim>\<open>ip\<close>
  (initially the empty string) and \<^verbatim>\<open>conf\<close> (initially the nil map, \<open>None\<close>).
\<close>

record mem =
  ip :: string
  conf :: "(string \<Rightarrow> json option) option"

text \<open>
  What the process does to the outside: the text files it reads and writes (a path that is
  not in the map cannot be opened), the artifact \<^verbatim>\<open>.config.json\<close> (held as the document
  the bytes of the file decode to, \<open>None\<close> when the file is absent), the
  lines printed, the URLs passed to \<^verbatim>\<open>http.Get\<close> and the (address, user) pairs passed to
  \<^verbatim>\<open>ssh.Dial\<close>, in call order.
\<close>

record world =
  files :: "string \<Rightarrow> string option"
  config_json :: "json option"
  stdout :: "string list"
  http_gets :: "string list"
  ssh_dials :: "(string \<times> string) list"

definition master :: string where
  "master = ''185.92.221.13''"

definition init_mem :: mem where
  "init_mem = \<lparr>ip = [], conf = None\<rparr>"

section \<open>Node resolution\<close>

text \<open>
  \<^verbatim>\<open>bufio.Scanner\<close> with its default split function \<^verbatim>\<open>ScanLines\<close>: a line ends at a
  newline, one carriage return before the newline belongs to the end-of-line marker and is
  dropped, the last line needs no newline, and an empty remainder gives no line. The
  scanner's buffer holds at most \<^verbatim>\<open>MaxScanTokenSize\<close> bytes: when a line and its
  newline do not fit, \<^verbatim>\<open>Scan\<close> reports false and the loop over the lines ends.
  \<open>scan_lines\<close> is the list of the values \<^verbatim>\<open>scanner.Text()\<close> takes in the loop
  \<^verbatim>\<open>for scanner.Scan() { ... }\<close>.
\<close>

definition nl :: char where
  "nl = CHR 0x0A"

definition cr :: char where
  "cr = CHR 0x0D"

definition MaxScanTokenSize :: nat where
  "MaxScanTokenSize = 64 * 1024"

definition dropCR :: "string \<Rightarrow> string" where
  "dropCR data = (if data \<noteq> [] \<and> last data = cr then butlast data else data)"

function scan_lines :: "string \<Rightarrow> string list" where
  "scan_lines data =
     (if data = [] then []
      else if MaxScanTokenSize \<le> length (takeWhile (\<lambda>c. c \<noteq> nl) data) then []
      else dropCR (takeWhile (\<lambda>c. c \<noteq> nl) data) #
        (case dropWhile (\<lambda>c. c \<noteq> nl) data of
           [] \<Rightarrow> []
         | _ # rest \<Rightarrow> scan_lines rest))"
  by pat_completeness auto
termination
proof (relation "measure length")
  show "wf (measure length)" by simp
next
  fix data :: string and x rest
  assume "dropWhile (\<lambda>c. c \<noteq> nl) data = x # rest"
  then have "Suc (length rest) \<le> length data"
    using length_dropWhile_le [of "\<lambda>c. c \<noteq> nl" data] by simp
  then show "(rest, data) \<in> measure length" by simp
qed

declare scan_lines.simps [simp del]

text \<open>
  What the request of \<^verbatim>\<open>RetrieveIP\<close> gives: \<^verbatim>\<open>http.Get\<close> fails, reading the body
  fails, or the body is read (whatever the status of the response).
\<close>

datatype http_result = GetFailed | ReadFailed | Body string

definition NodeIP :: "mem \<Rightarrow> string" where
  "NodeIP m = ip m"

text \<open>
  The loop of \<^verbatim>\<open>RetrieveIP\<close> over the lines, with its counter \<^verbatim>\<open>i\<close>: the first line is
  sliced at \<^verbatim>\<open>len(uname)+1\<close> and assigned to \<^verbatim>\<open>ip\<close>, every later line is printed. Go
  panics when the lower bound of a slice expression exceeds the length of the string.
\<close>

fun scan_loop :: "string \<Rightarrow> nat \<Rightarrow> string list \<Rightarrow> mem \<Rightarrow> world \<Rightarrow> mem result \<times> world" where
  "scan_loop uname i [] m w = (Return m, w)"
| "scan_loop uname i (t # ts) m w =
     (if i = 0 then
        (if length t < length uname + 1 then (Panic, w)
         else scan_loop uname (i + 1) ts (m\<lparr>ip := drop (length uname + 1) t\<rparr>) w)
      else scan_loop uname (i + 1) ts m (w\<lparr>stdout := stdout w @ [t]\<rparr>))"

text \<open>
  \<^verbatim>\<open>RetrieveIP(uname)\<close>, with the outcome \<open>resp\<close> of its request. The URL is recorded
  when \<^verbatim>\<open>http.Get\<close> is called.
\<close>

definition node_url :: "string \<Rightarrow> string" where
  "node_url uname = ''http://'' @ master @ ''/node?uname='' @ uname"

definition RetrieveIP :: "string \<Rightarrow> http_result \<Rightarrow> mem \<Rightarrow> world \<Rightarrow> (string \<times> mem) result \<times> world" where
  "RetrieveIP uname resp m w =
     (let w1 = w\<lparr>http_gets := http_gets w @ [node_url uname]\<rparr> in
      case resp of
        GetFailed \<Rightarrow> (Return ([], m), w1\<lparr>stdout := stdout w1 @ [''error when retrieving ip'']\<rparr>)
      | ReadFailed \<Rightarrow> (Return ([], m), w1\<lparr>stdout := stdout w1 @ [''error when retrieving ip'']\<rparr>)
      | Body body \<Rightarrow>
          (case scan_loop uname 0 (scan_lines body) m w1 of
             (Panic, w2) \<Rightarrow> (Panic, w2)
           | (Return m2, w2) \<Rightarrow> (Return (ip m2, m2), w2)))"

section \<open>Entitlement check\<close>

text \<open>
  What the process cannot decide by itself is passed in: the home directory
  \<^verbatim>\<open>user.Current()\<close> reports (\<open>None\<close> when the lookup fails; the code drops that error and
  dereferences the nil result), \<^verbatim>\<open>ssh.ParsePrivateKey\<close> as a function of the bytes read, and
  the error \<^verbatim>\<open>ssh.Dial\<close> returns when it is called (\<open>None\<close> for a handshake that succeeds).
\<close>

type_synonym signer = string

definition getKeyFile ::
  "string option \<Rightarrow> (string \<Rightarrow> go_error + signer) \<Rightarrow> world \<Rightarrow> (go_error + signer) result" where
  "getKeyFile home ParsePrivateKey w =
     (case home of
        None \<Rightarrow> Panic
      | Some HomeDir \<Rightarrow>
          (case files w (HomeDir @ ''/.ssh/id_rsa'') of
             None \<Rightarrow> Return (Inl (GoError (''open '' @ HomeDir @ ''/.ssh/id_rsa: no such file or directory'')))
           | Some buf \<Rightarrow> Return (ParsePrivateKey buf)))"

definition no_methods_remain :: string where
  "no_methods_remain =
     ''ssh: handshake failed: ssh: unable to authenticate, attempted methods [none publickey], no supported methods remain''"

definition ConfirmAccess ::
  "string \<Rightarrow> string option \<Rightarrow> (string \<Rightarrow> go_error + signer) \<Rightarrow> go_error option \<Rightarrow> world
     \<Rightarrow> go_error option result \<times> world" where
  "ConfirmAccess uname home ParsePrivateKey dial w =
     (case getKeyFile home ParsePrivateKey w of
        Panic \<Rightarrow> (Panic, w)
      | Return (Inl err) \<Rightarrow> (Return (Some err), w)
      | Return (Inr key) \<Rightarrow>
          (let w1 = w\<lparr>ssh_dials := ssh_dials w @ [(master @ '':26'', uname)]\<rparr> in
           case dial of
             None \<Rightarrow> (Return None, w1)
           | Some err \<Rightarrow>
               (Return (Some err),
                w1\<lparr>stdout := stdout w1 @
                  [if Error err = no_methods_remain
                   then ''Failed to dial: out of bandwidth or date''
                   else ''Failed to dial: '' @ Error err]\<rparr>)))"

section \<open>Configuration synthesis\<close>

text \<open>
  The template \<^verbatim>\<open>temp\<close>, as the document its bytes decode to.
\<close>

definition temp_inbound :: json where
  "temp_inbound =
     JObj (map_of [
       (''listen'', JStr ''127.0.0.1''),
       (''port'', JNum 1080),
       (''protocol'', JStr ''socks''),
       (''settings'', JObj (map_of [
         (''auth'', JStr ''noauth''),
         (''udp'', JBool False)]))])"

definition temp_vnext :: json where
  "temp_vnext =
     JArr [
       JObj (map_of [
         (''address'', JStr ''freedomland.tk''),
         (''port'', JNum 443),
         (''users'', JArr [
           JObj (map_of [
             (''id'', JStr ''b831381d-6324-4d53-ad4f-8cda48b30811''),
             (''alterId'', JNum 64)])])])]"

definition temp_streamSettings :: json where
  "temp_streamSettings =
     JObj (map_of [
       (''network'', JStr ''ws''),
       (''security'', JStr ''tls''),
       (''tlsSettings'', JObj (map_of [
         (''serverName'', JStr ''freedomland.tk'')])),
       (''wsSettings'', JObj (map_of [
         (''path'', JStr ''/ray'')]))])"

definition temp_outbound :: json where
  "temp_outbound =
     JObj (map_of [
       (''protocol'', JStr ''vmess''),
       (''settings'', JObj (map_of [(''vnext'', temp_vnext)])),
       (''streamSettings'', temp_streamSettings),
       (''mux'', JObj (map_of [(''enabled'', JBool True)]))])"

definition temp_outboundDetour :: json where
  "temp_outboundDetour =
     JArr [
       JObj (map_of [
         (''protocol'', JStr ''freedom''),
         (''settings'', JObj Map.empty),
         (''tag'', JStr ''direct'')]),
       JObj (map_of [
         (''protocol'', JStr ''blackhole''),
         (''settings'', JObj Map.empty),
         (''tag'', JStr ''adblock'')])]"

definition temp_routing :: json where
  "temp_routing =
     JObj (map_of [
       (''strategy'', JStr ''rules''),
       (''settings'', JObj (map_of [
         (''domainStrategy'', JStr ''IPIfNonMatch''),
         (''rules'', JArr [
           JObj (map_of [
             (''ip'', JArr [
               JStr ''0.0.0.0/8'', JStr ''10.0.0.0/8'', JStr ''100.64.0.0/10'',
               JStr ''127.0.0.0/8'', JStr ''169.254.0.0/16'', JStr ''172.16.0.0/12'',
               JStr ''192.0.0.0/24'', JStr ''192.0.2.0/24'', JStr ''192.168.0.0/16'',
               JStr ''198.18.0.0/15'', JStr ''198.51.100.0/24'',
               JStr ''203.0.113.0/24'', JStr ''::1/128'', JStr ''fc00::/7'',
               JStr ''fe80::/10'']),
             (''type'', JStr ''field''),
             (''outboundTag'', JStr ''direct'')]),
           JObj (map_of [
             (''domain'', JArr [
               JStr ''tanx.com'', JStr ''googeadsserving.cn'']),
             (''type'', JStr ''field''),
             (''outboundTag'', JStr ''adblock'')]),
           JObj (map_of [
             (''domain'', JArr [
               JStr ''amazon.com'', JStr ''microsoft.com'', JStr ''jd.com'',
               JStr ''youku.com'', JStr ''baidu.com'']),
             (''type'', JStr ''field''),
             (''outboundTag'', JStr ''direct'')]),
           JObj (map_of [
             (''type'', JStr ''chinasites''),
             (''outboundTag'', JStr ''direct'')]),
           JObj (map_of [
             (''type'', JStr ''chinaip''),
             (''outboundTag'', JStr ''direct'')])])]))])"

definition temp :: json where
  "temp =
     JObj (map_of [
       (''inbound'', temp_inbound),
       (''outbound'', temp_outbound),
       (''outboundDetour'', temp_outboundDetour),
       (''routing'', temp_routing)])"

text \<open>
  \<^verbatim>\<open>json.Unmarshal(temp, &conf)\<close>. The first argument is what the bytes decode to:
  \<open>Inl\<close> the syntax error when they are not JSON (nothing is stored then). An object is
  stored into the map \<^verbatim>\<open>conf\<close> already holds, key by key, each value decoded afresh; a nil
  map is allocated first. \<^verbatim>\<open>null\<close> sets the map to nil. Any other value is a type error
  and leaves \<^verbatim>\<open>conf\<close> as it was. The strings and keys of a decoded tree are valid UTF-8
  (the decoder replaces what is not), and its numbers fit \<^verbatim>\<open>float64\<close>.
\<close>

definition cannot_unmarshal :: "string \<Rightarrow> go_error" where
  "cannot_unmarshal kind =
     GoError (''json: cannot unmarshal '' @ kind @ '' into Go value of type map[string]interface {}'')"

fun Unmarshal ::
  "go_error + json \<Rightarrow> (string \<Rightarrow> json option) option
     \<Rightarrow> go_error option \<times> (string \<Rightarrow> json option) option" where
  "Unmarshal (Inl err) c = (Some err, c)"
| "Unmarshal (Inr (JObj obj)) None = (None, Some obj)"
| "Unmarshal (Inr (JObj obj)) (Some old) = (None, Some (old ++ obj))"
| "Unmarshal (Inr JNull) c = (None, None)"
| "Unmarshal (Inr (JBool b)) c = (Some (cannot_unmarshal ''bool''), c)"
| "Unmarshal (Inr (JNum n)) c = (Some (cannot_unmarshal ''number''), c)"
| "Unmarshal (Inr (JStr s)) c = (Some (cannot_unmarshal ''string''), c)"
| "Unmarshal (Inr (JArr xs)) c = (Some (cannot_unmarshal ''array''), c)"

text \<open>
  The inner loop \<^verbatim>\<open>for _, u := range users\<close> and the outer loop
  \<^verbatim>\<open>for _, v := range vnext\<close>. A failed type assertion panics. The Go code assigns into the
  maps the slices refer to; the model returns the slices with the updated maps.
\<close>

fun set_ids :: "string \<Rightarrow> json list \<Rightarrow> json list result" where
  "set_ids uuid [] = Return []"
| "set_ids uuid (u # us) =
     (case u of
        JObj um \<Rightarrow>
          (case set_ids uuid us of
             Panic \<Rightarrow> Panic
           | Return us' \<Rightarrow> Return (JObj (um(''id'' \<mapsto> JStr uuid)) # us'))
      | _ \<Rightarrow> Panic)"

fun set_vnext :: "string \<Rightarrow> string \<Rightarrow> json list \<Rightarrow> json list result" where
  "set_vnext ipaddr uuid [] = Return []"
| "set_vnext ipaddr uuid (v # vs) =
     (case v of
        JObj vm \<Rightarrow>
          (case (vm(''address'' \<mapsto> JStr ipaddr)) ''users'' of
             Some (JArr users) \<Rightarrow>
               (case set_ids uuid users of
                  Panic \<Rightarrow> Panic
                | Return users' \<Rightarrow>
                    (case set_vnext ipaddr uuid vs of
                       Panic \<Rightarrow> Panic
                     | Return vs' \<Rightarrow>
                         Return (JObj (vm(''address'' \<mapsto> JStr ipaddr, ''users'' \<mapsto> JArr users')) # vs')))
           | _ \<Rightarrow> Panic)
      | _ \<Rightarrow> Panic)"

text \<open>
  \<^verbatim>\<open>utf8.DecodeRuneInString\<close>, as far as the encoder of \<^verbatim>\<open>json.Marshal\<close> uses it:
  \<open>rune_width s\<close> is the number of bytes of the encoding \<open>s\<close> starts with, and \<open>0\<close> where
  Go reports \<^verbatim>\<open>(RuneError, 1)\<close>: the first byte starts no valid encoding. The lead bytes
  and the ranges of the second byte are those of the tables \<^verbatim>\<open>first\<close> and
  \<^verbatim>\<open>acceptRanges\<close>.
\<close>

definition between :: "nat \<Rightarrow> nat \<Rightarrow> char \<Rightarrow> bool" where
  "between lo hi c = (lo \<le> of_char c \<and> (of_char c :: nat) \<le> hi)"

definition continuation :: "nat \<Rightarrow> nat \<Rightarrow> nat \<Rightarrow> string \<Rightarrow> nat" where
  "continuation sz lo hi s =
     (case s of
        [] \<Rightarrow> 0
      | s1 # r1 \<Rightarrow>
          if \<not> between lo hi s1 then 0
          else if sz \<le> 2 then 2
          else
            (case r1 of
               [] \<Rightarrow> 0
             | s2 # r2 \<Rightarrow>
                 if \<not> between 0x80 0xBF s2 then 0
                 else if sz \<le> 3 then 3
                 else
                   (case r2 of
                      [] \<Rightarrow> 0
                    | s3 # r3 \<Rightarrow> if between 0x80 0xBF s3 then 4 else 0)))"

definition rune_width :: "string \<Rightarrow> nat" where
  "rune_width s =
     (case s of
        [] \<Rightarrow> 0
      | s0 # r \<Rightarrow>
          if (of_char s0 :: nat) < 0x80 then 1
          else if between 0xC2 0xDF s0 then continuation 2 0x80 0xBF r
          else if between 0xE0 0xE0 s0 then continuation 3 0xA0 0xBF r
          else if between 0xE1 0xEC s0 then continuation 3 0x80 0xBF r
          else if between 0xED 0xED s0 then continuation 3 0x80 0x9F r
          else if between 0xEE 0xEF s0 then continuation 3 0x80 0xBF r
          else if between 0xF0 0xF0 s0 then continuation 4 0x90 0xBF r
          else if between 0xF1 0xF3 s0 then continuation 4 0x80 0xBF r
          else if between 0xF4 0xF4 s0 then continuation 4 0x80 0x8F r
          else 0)"

text \<open>
  The string a reader of the file gets back for a Go string \<open>s\<close> that \<^verbatim>\<open>json.Marshal\<close>
  wrote: the encoder copies every valid encoding (escaped or not, it decodes to itself)
  and writes \<^verbatim>\<open>\ufffd\<close>, the replacement character U+FFFD, for every byte that starts
  none. \<open>ValidString\<close> is \<^verbatim>\<open>utf8.ValidString\<close>.
\<close>

definition RuneError :: string where
  "RuneError = [CHR 0xEF, CHR 0xBF, CHR 0xBD]"

function encoded_string :: "string \<Rightarrow> string" where
  "encoded_string [] = []"
| "encoded_string (b # bs) =
     (if rune_width (b # bs) = 0 then RuneError @ encoded_string bs
      else b # take (rune_width (b # bs) - 1) bs @
        encoded_string (drop (rune_width (b # bs) - 1) bs))"
  by pat_completeness auto
termination
  by (relation "measure length") auto

function ValidString :: "string \<Rightarrow> bool" where
  "ValidString [] = True"
| "ValidString (b # bs) =
     (rune_width (b # bs) \<noteq> 0 \<and> ValidString (drop (rune_width (b # bs) - 1) bs))"
  by pat_completeness auto
termination
  by (relation "measure length") auto

declare encoded_string.simps [simp del] ValidString.simps [simp del]

text \<open>
  \<^verbatim>\<open>json.Marshal\<close>, as the document its bytes decode to: the tree with every string
  as the encoder writes it. (Keys are written like strings; the keys of a decoded tree and
  the keys \<^verbatim>\<open>GenConfig\<close> assigns are valid UTF-8, so they are written as they are.)
\<close>

primrec Marshal :: "json \<Rightarrow> json" where
  "Marshal JNull = JNull"
| "Marshal (JBool b) = JBool b"
| "Marshal (JNum n) = JNum n"
| "Marshal (JStr s) = JStr (encoded_string s)"
| "Marshal (JArr xs) = JArr (map Marshal xs)"
| "Marshal (JObj obj) = JObj (map_option Marshal \<circ> obj)"

text \<open>
  \<^verbatim>\<open>GenConfig(ip, uuid)\<close>. \<open>decoded\<close> is what the bytes of \<^verbatim>\<open>temp\<close> decode to (the
  program passes \<open>Inr temp\<close>), \<open>write\<close> the error of \<^verbatim>\<open>ioutil.WriteFile\<close> (\<open>None\<close> when
  the file is written; a failed write is taken to leave the file as it was). The error of
  \<^verbatim>\<open>json.Marshal\<close> is dropped by the code; a tree built by the decoder always encodes.
  The strings \<^verbatim>\<open>ip\<close> and \<^verbatim>\<open>uuid\<close> are stored in \<^verbatim>\<open>conf\<close> byte for byte; the file
  holds what \<^verbatim>\<open>json.Marshal\<close> writes for them.
\<close>

definition GenConfig ::
  "go_error + json \<Rightarrow> string \<Rightarrow> string \<Rightarrow> go_error option \<Rightarrow> mem \<Rightarrow> world
     \<Rightarrow> (go_error option \<times> mem) result \<times> world" where
  "GenConfig decoded ipaddr uuid write m w =
     (case Unmarshal decoded (conf m) of
        (Some err, c) \<Rightarrow> (Return (Some err, m\<lparr>conf := c\<rparr>), w)
      | (None, None) \<Rightarrow> (Panic, w)
      | (None, Some c) \<Rightarrow>
          (case c ''outbound'' of
             Some (JObj outbound) \<Rightarrow>
               (case outbound ''settings'' of
                  Some (JObj settings) \<Rightarrow>
                    (case settings ''vnext'' of
                       Some (JArr vnext) \<Rightarrow>
                         (case set_vnext ipaddr uuid vnext of
                            Panic \<Rightarrow> (Panic, w)
                          | Return vnext' \<Rightarrow>
                              (let c' = c(''outbound'' \<mapsto>
                                      JObj (outbound(''settings'' \<mapsto>
                                        JObj (settings(''vnext'' \<mapsto> JArr vnext')))));
                                   m' = m\<lparr>conf := Some c'\<rparr>
                               in case write of
                                    Some err \<Rightarrow> (Return (Some err, m'), w)
                                  | None \<Rightarrow>
                                      (Return (None, m'), w\<lparr>config_json := Some (Marshal (JObj c'))\<rparr>)))
                     | _ \<Rightarrow> (Panic, w))
                | _ \<Rightarrow> (Panic, w))
           | _ \<Rightarrow> (Panic, w)))"

section \<open>The program\<close>

text \<open>The command-line flags of \<^verbatim>\<open>main.go\<close>, after \<^verbatim>\<open>flag.Parse()\<close>.\<close>

record flags =
  configFile :: string
  version :: bool
  test :: bool
  format :: string
  plugin :: bool
  uname :: string
  uuid :: string

text \<open>
  The outcomes of the calls that leave the process or the files of this repository that
  are at hand: the three inputs of the entitlement check, the response to the HTTP request,
  the errors of the two \<^verbatim>\<open>ioutil.WriteFile\<close> calls, of \<^verbatim>\<open>core.LoadPlugins\<close>, of
  \<^verbatim>\<open>core.LoadConfig\<close> and \<^verbatim>\<open>core.New\<close> on the document read from the artifact, and of
  \<^verbatim>\<open>server.Start\<close>; the generated \<^verbatim>\<open>newError(...).Base(...)\<close>; and whether a signal
  reaches the channel \<^verbatim>\<open>osSignals\<close>.
\<close>

record env =
  user_Current :: "string option"
  ParsePrivateKey :: "string \<Rightarrow> go_error + signer"
  ssh_Dial :: "go_error option"
  http_Get :: http_result
  WriteFile_freeland :: "go_error option"
  WriteFile_config :: "go_error option"
  LoadPlugins :: "go_error option"
  LoadConfig :: "json \<Rightarrow> go_error option"
  core_New :: "json \<Rightarrow> go_error option"
  server_Start :: "go_error option"
  newError :: "string \<Rightarrow> go_error \<Rightarrow> go_error"
  osSignals :: bool

text \<open>
  How the process ends: \<^verbatim>\<open>main\<close> returns, \<^verbatim>\<open>os.Exit\<close> is called with a status, a
  panic unwinds \<^verbatim>\<open>main\<close>, or the process stays blocked on the signal channel.
\<close>

datatype exit = Returned | Exited int | Panicked | Blocked

definition Println :: "string \<Rightarrow> world \<Rightarrow> world" where
  "Println line w = w\<lparr>stdout := stdout w @ [line]\<rparr>"

text \<open>
  \<^verbatim>\<open>startV2Ray\<close> as \<^verbatim>\<open>main\<close> calls it: \<^verbatim>\<open>*configFile\<close> is \<^verbatim>\<open>.config.json\<close> then, so
  \<^verbatim>\<open>getConfigFilePath\<close> returns that path, which is not \<^verbatim>\<open>stdin:\<close> and which
  \<^verbatim>\<open>os.ExpandEnv\<close> leaves as it is.
\<close>

definition startV2Ray :: "env \<Rightarrow> world \<Rightarrow> go_error option \<times> world" where
  "startV2Ray e w =
     (case config_json w of
        None \<Rightarrow>
          (Some (newError e ''config file not readable''
                   (GoError ''open .config.json: no such file or directory'')), w)
      | Some config \<Rightarrow>
          (case LoadConfig e config of
             Some err \<Rightarrow> (Some (newError e ''failed to read config file: .config.json'' err), w)
           | None \<Rightarrow>
               (case core_New e config of
                  Some err \<Rightarrow> (Some (newError e ''failed to create server'' err), w)
                | None \<Rightarrow> (None, w\<lparr>config_json := None\<rparr>))))"

text \<open>The loop of \<^verbatim>\<open>main\<close> over the lines of \<^verbatim>\<open>.freeland.conf\<close>.\<close>

fun conf_loop :: "nat \<Rightarrow> string list \<Rightarrow> flags \<Rightarrow> flags" where
  "conf_loop i [] f = f"
| "conf_loop i (t # ts) f =
     conf_loop (i + 1) ts
       (if i = 0 then f\<lparr>uname := t\<rparr> else if i = 1 then f\<lparr>uuid := t\<rparr> else f)"

text \<open>The body of \<^verbatim>\<open>main\<close>, without the deferred call.\<close>

definition main_body :: "flags \<Rightarrow> env \<Rightarrow> mem \<Rightarrow> world \<Rightarrow> exit \<times> world" where
  "main_body f e m w =
     (if uname f \<noteq> [] \<or> uuid f \<noteq> [] then
        (if uname f = [] \<or> uuid f = [] then
           (Returned, Println ''./freeland -uname name -uuid id''
                        (Println ''Need to specify both uname and uuid'' w))
         else
           (case WriteFile_freeland e of
              Some err \<Rightarrow> (Returned, w)
            | None \<Rightarrow>
                (Returned, w\<lparr>files := (files w)(''.freeland.conf'' \<mapsto> uname f @ [nl] @ uuid f @ [nl])\<rparr>)))
      else
        (case files w ''.freeland.conf'' of
           None \<Rightarrow> (Returned, Println ''Not configured yet, configure first'' w)
         | Some text \<Rightarrow>
             (let f1 = conf_loop 0 (scan_lines text) f in
              if uname f1 = [] \<or> uuid f1 = [] then (Returned, Println ''Configuration error'' w)
              else
                (case ConfirmAccess (uname f1) (user_Current e) (ParsePrivateKey e) (ssh_Dial e) w of
                   (Panic, w1) \<Rightarrow> (Panicked, w1)
                 | (Return (Some err), w1) \<Rightarrow> (Returned, w1)
                 | (Return None, w1) \<Rightarrow>
                     (case RetrieveIP (uname f1) (http_Get e) m w1 of
                        (Panic, w2) \<Rightarrow> (Panicked, w2)
                      | (Return (ipaddr, m2), w2) \<Rightarrow>
                          (if length ipaddr = 0 then (Returned, Println ''Configure error'' w2)
                           else
                             (case GenConfig (Inr temp) ipaddr (uuid f1) (WriteFile_config e) m2 w2 of
                                (Panic, w3) \<Rightarrow> (Panicked, w3)
                              | (Return (Some err, m3), w3) \<Rightarrow>
                                  (Returned, Println ''Configuration error!'' w3)
                              | (Return (None, m3), w3) \<Rightarrow>
                                  (if version f1 then (Returned, w3)
                                   else
                                     (case (if plugin f1 then LoadPlugins e else None) of
                                        Some err \<Rightarrow>
                                          (Exited (- 1),
                                           Println (''Failed to load plugins: '' @ Error err) w3)
                                      | None \<Rightarrow>
                                          (case startV2Ray e w3 of
                                             (Some err, w4) \<Rightarrow> (Exited (- 1), Println (Error err) w4)
                                           | (None, w4) \<Rightarrow>
                                               (if test f1 then
                                                  (Exited 0, Println ''Configuration OK.'' w4)
                                                else
                                                  (case server_Start e of
                                                     Some err \<Rightarrow>
                                                       (Exited (- 1),
                                                        Println (''Failed to start '' @ Error err) w4)
                                                   | None \<Rightarrow>
                                                       (if osSignals e then (Returned, w4)
                                                        else (Blocked, w4))))))))))))))"

text \<open>
  \<^verbatim>\<open>main\<close>: the process starts with fresh memory. The call deferred in its first line,
  \<^verbatim>\<open>os.Remove(".config.json")\<close>, runs when \<^verbatim>\<open>main\<close> returns and when a panic unwinds it;
  \<^verbatim>\<open>os.Exit\<close> ends the process at once and runs no deferred call.
\<close>

definition main :: "flags \<Rightarrow> env \<Rightarrow> world \<Rightarrow> exit \<times> world" where
  "main f e w =
     (case main_body f e init_mem w of
        (Returned, w') \<Rightarrow> (Returned, w'\<lparr>config_json := None\<rparr>)
      | (Panicked, w') \<Rightarrow> (Panicked, w'\<lparr>config_json := None\<rparr>)
      | (Exited status, w') \<Rightarrow> (Exited status, w')
      | (Blocked, w') \<Rightarrow> (Blocked, w'))"

section \<open>Shapes and readings of a document\<close>

text \<open>
  \<open>field k j\<close> is the entry of the object \<open>j\<close> under the key \<open>k\<close>; \<open>sub k j\<close> is what Go's
  \<^verbatim>\<open>j[k]\<close> evaluates to: the value stored, and nil (\<open>JNull\<close>) when there is none.
\<close>

definition is_obj :: "json \<Rightarrow> bool" where
  "is_obj j = (case j of JObj _ \<Rightarrow> True | _ \<Rightarrow> False)"

definition is_arr :: "json \<Rightarrow> bool" where
  "is_arr j = (case j of JArr _ \<Rightarrow> True | _ \<Rightarrow> False)"

definition field :: "string \<Rightarrow> json \<Rightarrow> json option" where
  "field k j = (case j of JObj obj \<Rightarrow> obj k | _ \<Rightarrow> None)"

definition sub :: "string \<Rightarrow> json \<Rightarrow> json" where
  "sub k j = (case field k j of Some v \<Rightarrow> v | None \<Rightarrow> JNull)"

definition elems :: "json \<Rightarrow> json list" where
  "elems j = (case j of JArr xs \<Rightarrow> xs | _ \<Rightarrow> [])"

definition users_of :: "json \<Rightarrow> json list" where
  "users_of v = elems (sub ''users'' v)"

definition vnext_of :: "json \<Rightarrow> json list" where
  "vnext_of doc = elems (sub ''vnext'' (sub ''settings'' (sub ''outbound'' doc)))"

text \<open>
  The shape the descent of \<^verbatim>\<open>GenConfig\<close> asks for: an object whose \<^verbatim>\<open>outbound\<close> is an
  object, whose \<^verbatim>\<open>settings\<close> is an object, whose \<^verbatim>\<open>vnext\<close> is an array of objects, each
  with an array \<^verbatim>\<open>users\<close> of objects. The arrays may have any length.
\<close>

definition valid_vnext_entry :: "json \<Rightarrow> bool" where
  "valid_vnext_entry v =
     (is_obj v \<and> is_arr (sub ''users'' v) \<and> list_all is_obj (users_of v))"

definition valid_template :: "json \<Rightarrow> bool" where
  "valid_template doc =
     (is_obj doc \<and>
      is_obj (sub ''outbound'' doc) \<and>
      is_obj (sub ''settings'' (sub ''outbound'' doc)) \<and>
      is_arr (sub ''vnext'' (sub ''settings'' (sub ''outbound'' doc))) \<and>
      list_all valid_vnext_entry (vnext_of doc))"

text \<open>
  What a call hands to its caller, without the memory; and the document \<^verbatim>\<open>conf\<close> holds
  after a call that returned.
\<close>

definition returned :: "('a \<times> mem) result \<Rightarrow> 'a result" where
  "returned r = (case r of Panic \<Rightarrow> Panic | Return (x, m) \<Rightarrow> Return x)"

definition conf_after :: "('a \<times> mem) result \<Rightarrow> json" where
  "conf_after r =
     (case r of
        Panic \<Rightarrow> JNull
      | Return (x, m) \<Rightarrow> (case conf m of None \<Rightarrow> JNull | Some c \<Rightarrow> JObj c))"

text \<open>The document in the artifact, nil when there is no artifact.\<close>

definition artifact :: "world \<Rightarrow> json" where
  "artifact w = (case config_json w of None \<Rightarrow> JNull | Some d \<Rightarrow> d)"

text \<open>Two objects that agree on every key outside \<open>K\<close>.\<close>

definition same_except :: "string set \<Rightarrow> json \<Rightarrow> json \<Rightarrow> bool" where
  "same_except K a b =
     (is_obj a \<and> is_obj b \<and> (\<forall>k. k \<notin> K \<longrightarrow> field k a = field k b))"

text \<open>
  What the two loops do to a user entry and to a server entry: the keys they assign hold
  the new values, and every other key holds what it held.
\<close>

definition id_set :: "string \<Rightarrow> json \<Rightarrow> json \<Rightarrow> bool" where
  "id_set S u u' = (same_except {''id''} u u' \<and> sub ''id'' u' = JStr S)"

definition entry_set :: "string \<Rightarrow> string \<Rightarrow> json \<Rightarrow> json \<Rightarrow> bool" where
  "entry_set A S v v' =
     (same_except {''address'', ''users''} v v' \<and>
      sub ''address'' v' = JStr A \<and>
      is_arr (sub ''users'' v') \<and>
      list_all2 (id_set S) (users_of v) (users_of v'))"

definition world0 :: world where
  "world0 = \<lparr>files = Map.empty, config_json = None, stdout = [], http_gets = [], ssh_dials = []\<rparr>"

text \<open>A world whose only file is a private key in the home directory \<^verbatim>\<open>/home/alice\<close>.\<close>

definition world_key :: world where
  "world_key = world0\<lparr>files := [''/home/alice/.ssh/id_rsa'' \<mapsto> ''KEY'']\<rparr>"

text \<open>A template without the \<^verbatim>\<open>outbound\<close> block, and one with two server entries.\<close>

definition no_outbound :: json where
  "no_outbound = JObj (map_of [(''inbound'', temp_inbound)])"

definition two_servers :: json where
  "two_servers =
     JObj (map_of [(''outbound'',
       JObj (map_of [(''settings'',
         JObj (map_of [(''vnext'', JArr [
           JObj (map_of [(''address'', JStr ''a.example''), (''users'', JArr [])]),
           JObj (map_of [(''address'', JStr ''b.example''), (''users'', JArr [])])])]))]))])"

text \<open>
  A run of the program: the identity \<^verbatim>\<open>(alice, uuid-123)\<close> is configured, the key is in
  place, and every outside call succeeds.
\<close>

definition flags_plugin :: flags where
  "flags_plugin =
     \<lparr>configFile = [], version = False, test = False, format = ''json'', plugin = True,
      uname = [], uuid = []\<rparr>"

definition env_ok :: env where
  "env_ok =
     \<lparr>user_Current = Some ''/home/alice'',
      ParsePrivateKey = (\<lambda>buf. Inr buf),
      ssh_Dial = None,
      http_Get = Body ''alice=198.51.100.7'',
      WriteFile_freeland = None,
      WriteFile_config = None,
      LoadPlugins = None,
      LoadConfig = (\<lambda>config. None),
      core_New = (\<lambda>config. None),
      server_Start = None,
      newError = (\<lambda>msg base. GoError (msg @ '' > '' @ Error base)),
      osSignals = True\<rparr>"

definition world_configured :: world where
  "world_configured =
     world_key\<lparr>files := (files world_key)(''.freeland.conf'' \<mapsto> ''alice'' @ [nl] @ ''uuid-123'' @ [nl])\<rparr>"

section \<open>Properties of node resolution\<close>

lemma scan_loop_rest:
  "0 < i \<Longrightarrow> scan_loop u i ts m w = (Return m, w\<lparr>stdout := stdout w @ ts\<rparr>)"
  by (induction ts arbitrary: i w) auto

lemma scan_loop_http_gets: "http_gets (snd (scan_loop u i ts m w)) = http_gets w"
  by (induction ts arbitrary: i m w) auto

text \<open>The three courses of a call whose body was read: a first line that is long enough,
  a first line that is too short, and no line at all.\<close>

lemma RetrieveIP_line:
  assumes "scan_lines body = l # ls" and "length u + 1 \<le> length l"
  shows "RetrieveIP u (Body body) m w =
           (Return (drop (length u + 1) l, m\<lparr>ip := drop (length u + 1) l\<rparr>),
            w\<lparr>http_gets := http_gets w @ [node_url u], stdout := stdout w @ ls\<rparr>)"
  using assms by (simp add: RetrieveIP_def scan_loop_rest)

lemma RetrieveIP_short:
  assumes "scan_lines body = l # ls" and "length l < length u + 1"
  shows "RetrieveIP u (Body body) m w = (Panic, w\<lparr>http_gets := http_gets w @ [node_url u]\<rparr>)"
  using assms by (simp add: RetrieveIP_def)

lemma RetrieveIP_no_line:
  assumes "scan_lines body = []"
  shows "RetrieveIP u (Body body) m w =
           (Return (ip m, m), w\<lparr>http_gets := http_gets w @ [node_url u]\<rparr>)"
  using assms by (simp add: RetrieveIP_def)

lemma RetrieveIP_http_gets:
  "http_gets (snd (RetrieveIP u r m w)) = http_gets w @ [node_url u]"
proof (cases r)
  case (Body body)
  obtain r2 w2 where
    loop: "scan_loop u 0 (scan_lines body) m (w\<lparr>http_gets := http_gets w @ [node_url u]\<rparr>) = (r2, w2)"
    by (cases "scan_loop u 0 (scan_lines body) m (w\<lparr>http_gets := http_gets w @ [node_url u]\<rparr>)")
  have "http_gets w2 = http_gets w @ [node_url u]"
    using scan_loop_http_gets [of u 0 "scan_lines body" m "w\<lparr>http_gets := http_gets w @ [node_url u]\<rparr>"] loop
    by simp
  with Body loop show ?thesis
    by (cases r2) (simp_all add: RetrieveIP_def)
qed (simp_all add: RetrieveIP_def)

lemma RetrieveIP_stores:
  "RetrieveIP u (Body body) m w = (Return (a, m'), w') \<Longrightarrow> ip m' = a"
  by (auto simp: RetrieveIP_def split: prod.splits result.splits)

text \<open>The first line of a body that starts with a short line and a newline, whatever follows.\<close>

lemma scan_lines_first:
  assumes "nl \<notin> set l" and "length l < MaxScanTokenSize"
  shows "scan_lines (l @ nl # rest) = dropCR l # scan_lines rest"
proof -
  have t: "takeWhile (\<lambda>c. c \<noteq> nl) (l @ nl # rest) = l"
    using assms(1) by (subst takeWhile_append2) auto
  have d: "dropWhile (\<lambda>c. c \<noteq> nl) (l @ nl # rest) = nl # rest"
    using assms(1) by (subst dropWhile_append2) auto
  show ?thesis
    using assms(2) by (subst scan_lines.simps) (simp add: t d)
qed

text \<open>
  A body that starts with a line of at least \<open>length u + 1\<close> characters and a newline:
  what follows the newline has no part in the address.
\<close>

lemma RetrieveIP_body:
  assumes "nl \<notin> set l" and "length l < MaxScanTokenSize" and "length u + 1 \<le> length (dropCR l)"
  shows "fst (RetrieveIP u (Body (l @ nl # rest)) m w) =
           Return (drop (length u + 1) (dropCR l), m\<lparr>ip := drop (length u + 1) (dropCR l)\<rparr>)"
  using scan_lines_first [OF assms(1,2), of rest] assms(3) by (simp add: RetrieveIP_line)

lemmas scan_eval = scan_lines.simps nl_def cr_def dropCR_def MaxScanTokenSize_def

text \<open>
  C2 (as amended). When the first line the scanner delivers has at least
  \<open>length u + 1\<close> characters, \<^verbatim>\<open>RetrieveIP\<close> returns that line from offset
  \<open>length u + 1\<close> to its end and stores it in \<^verbatim>\<open>ip\<close>; any other body with the same
  first line gives the same result, so the lines after the first do not affect the address.
\<close>

theorem RetrieveIP_first_line:
  assumes "scan_lines body = l # ls" and "length u + 1 \<le> length l"
  shows "fst (RetrieveIP u (Body body) m w) =
           Return (drop (length u + 1) l, m\<lparr>ip := drop (length u + 1) l\<rparr>) \<and>
         (\<forall>body' ls'. scan_lines body' = l # ls' \<longrightarrow>
            fst (RetrieveIP u (Body body') m w) = fst (RetrieveIP u (Body body) m w))"
  using assms by (simp add: RetrieveIP_line)

text \<open>
  The example of the specification: subject \<^verbatim>\<open>alice\<close>, body
  \<^verbatim>\<open>alice=10.1.2.3\nsome log line\n\<close>, address \<^verbatim>\<open>10.1.2.3\<close>.
\<close>

theorem RetrieveIP_first_line_witness:
  "scan_lines (''alice=10.1.2.3'' @ [nl] @ ''some log line'' @ [nl]) =
     [''alice=10.1.2.3'', ''some log line''] \<and>
   length ''alice'' + 1 \<le> length ''alice=10.1.2.3'' \<and>
   fst (RetrieveIP ''alice'' (Body (''alice=10.1.2.3'' @ [nl] @ ''some log line'' @ [nl])) init_mem world0) =
     Return (''10.1.2.3'', init_mem\<lparr>ip := ''10.1.2.3''\<rparr>)"
proof -
  have lines: "scan_lines (''alice=10.1.2.3'' @ [nl] @ ''some log line'' @ [nl]) =
      [''alice=10.1.2.3'', ''some log line'']"
    by (simp add: scan_eval)
  have len: "length ''alice'' + 1 \<le> length ''alice=10.1.2.3''"
    by simp
  show ?thesis
    using RetrieveIP_first_line [OF lines len, of init_mem world0] lines by simp
qed

text \<open>
  C2 as stated, for every body, fails: a body whose first line is shorter than
  \<open>length u + 1\<close> makes the slice expression panic, and no address is returned.
\<close>

theorem RetrieveIP_short_line_counterexample:
  "fst (RetrieveIP ''alice'' (Body (''bob=1'' @ [nl] @ ''alice=10.1.2.3'' @ [nl])) init_mem world0) = Panic"
  by (simp add: RetrieveIP_def scan_eval)

text \<open>
  A first line of \<^verbatim>\<open>MaxScanTokenSize\<close> bytes or more is not delivered: the scanner stops
  with \<^verbatim>\<open>ErrTooLong\<close>, the loop does not run, and \<^verbatim>\<open>RetrieveIP\<close> returns what \<^verbatim>\<open>ip\<close>
  holds.
\<close>

lemma scan_lines_long:
  "MaxScanTokenSize \<le> length (takeWhile (\<lambda>c. c \<noteq> nl) data) \<Longrightarrow> scan_lines data = []"
  by (subst scan_lines.simps) simp

lemma RetrieveIP_long_line:
  "MaxScanTokenSize \<le> length (takeWhile (\<lambda>c. c \<noteq> nl) body) \<Longrightarrow>
     fst (RetrieveIP u (Body body) m w) = Return (ip m, m)"
  by (simp add: RetrieveIP_no_line scan_lines_long)

text \<open>
  C10 (as amended). For a body from which the scanner delivers a first line \<open>l\<close>,
  \<^verbatim>\<open>RetrieveIP\<close> returns (does not panic) exactly when \<open>l\<close> has at least \<open>length u + 1\<close>
  characters, and then it returns the rest of \<open>l\<close> from that offset.
\<close>

theorem RetrieveIP_bounds:
  assumes "scan_lines body = l # ls"
  shows "(fst (RetrieveIP u (Body body) m w) \<noteq> Panic) = (length u + 1 \<le> length l) \<and>
         (length u + 1 \<le> length l \<longrightarrow>
            fst (RetrieveIP u (Body body) m w) =
              Return (drop (length u + 1) l, m\<lparr>ip := drop (length u + 1) l\<rparr>))"
proof (cases "length u + 1 \<le> length l")
  case True
  then show ?thesis using assms by (simp add: RetrieveIP_line)
next
  case False
  then have "length l < length u + 1" by simp
  with assms have "fst (RetrieveIP u (Body body) m w) = Panic"
    by (simp add: RetrieveIP_short)
  with False show ?thesis by simp
qed

text \<open>
  At the bound: the line \<^verbatim>\<open>alice=\<close> has exactly \<open>length u + 1\<close> characters and gives the
  empty address; the line \<^verbatim>\<open>alice\<close> is one character shorter and panics.
\<close>

theorem RetrieveIP_bounds_witness:
  "scan_lines ''alice='' = [''alice=''] \<and>
   fst (RetrieveIP ''alice'' (Body ''alice='') init_mem world0) = Return ([], init_mem\<lparr>ip := []\<rparr>) \<and>
   scan_lines ''alice'' = [''alice''] \<and>
   fst (RetrieveIP ''alice'' (Body ''alice'') init_mem world0) = Panic"
proof -
  have a: "scan_lines ''alice='' = [''alice='']" by (simp add: scan_eval)
  have b: "scan_lines ''alice'' = [''alice'']" by (simp add: scan_eval)
  show ?thesis
    using RetrieveIP_bounds [OF a, of "''alice''" init_mem world0]
      RetrieveIP_bounds [OF b, of "''alice''" init_mem world0] a b
    by simp
qed

text \<open>
  C10 as stated fails for a first line that the scanner does not deliver: the line
  \<^verbatim>\<open>alice=\<close> followed by 65536 digits has more than \<open>length u + 1\<close> characters, and
  \<^verbatim>\<open>RetrieveIP\<close> returns the empty string a fresh process holds in \<^verbatim>\<open>ip\<close>, not the
  65536 digits after the offset.
\<close>

theorem RetrieveIP_long_line_counterexample:
  "length ''alice'' + 1 \<le> length (''alice='' @ replicate 65536 (CHR ''1'')) \<and>
   nl \<notin> set (''alice='' @ replicate 65536 (CHR ''1'')) \<and>
   drop (length ''alice'' + 1) (''alice='' @ replicate 65536 (CHR ''1'')) = replicate 65536 (CHR ''1'') \<and>
   fst (RetrieveIP ''alice'' (Body (''alice='' @ replicate 65536 (CHR ''1''))) init_mem world0) =
     Return ([], init_mem) \<and>
   replicate 65536 (CHR ''1'') \<noteq> []"
proof -
  have "takeWhile (\<lambda>c. c \<noteq> nl) (''alice='' @ replicate 65536 (CHR ''1'')) =
      ''alice='' @ replicate 65536 (CHR ''1'')"
    by (simp add: nl_def)
  then have "MaxScanTokenSize \<le> length (takeWhile (\<lambda>c. c \<noteq> nl) (''alice='' @ replicate 65536 (CHR ''1'')))"
    by (simp add: MaxScanTokenSize_def)
  then have "fst (RetrieveIP ''alice'' (Body (''alice='' @ replicate 65536 (CHR ''1''))) init_mem world0) =
      Return (ip init_mem, init_mem)"
    by (rule RetrieveIP_long_line)
  then show ?thesis
    by (simp add: init_mem_def nl_def)
qed

text \<open>
  C5 (as amended). Every call of \<^verbatim>\<open>RetrieveIP\<close> passes one more URL to \<^verbatim>\<open>http.Get\<close>,
  whatever \<^verbatim>\<open>ip\<close> holds. A call whose body was read leaves the address it returns in
  \<^verbatim>\<open>ip\<close>, where \<^verbatim>\<open>NodeIP\<close> reads it with no request. A later call returns the stored
  address only when its own body has no line, and the empty string when its request fails.
\<close>

theorem RetrieveIP_every_call_requests:
  "http_gets (snd (RetrieveIP u r m w)) = http_gets w @ [node_url u] \<and>
   (\<forall>body a m'. r = Body body \<longrightarrow> fst (RetrieveIP u r m w) = Return (a, m') \<longrightarrow> NodeIP m' = a) \<and>
   (\<forall>body. r = Body body \<longrightarrow> scan_lines body = [] \<longrightarrow>
      fst (RetrieveIP u r m w) = Return (NodeIP m, m)) \<and>
   (r = GetFailed \<or> r = ReadFailed \<longrightarrow> fst (RetrieveIP u r m w) = Return ([], m))"
proof -
  have "\<forall>body a m'. r = Body body \<longrightarrow> fst (RetrieveIP u r m w) = Return (a, m') \<longrightarrow> NodeIP m' = a"
    using RetrieveIP_stores [of u _ m w] by (metis NodeIP_def prod.collapse)
  moreover have "\<forall>body. r = Body body \<longrightarrow> scan_lines body = [] \<longrightarrow>
      fst (RetrieveIP u r m w) = Return (NodeIP m, m)"
    by (simp add: RetrieveIP_no_line NodeIP_def)
  moreover have "r = GetFailed \<or> r = ReadFailed \<longrightarrow> fst (RetrieveIP u r m w) = Return ([], m)"
    by (auto simp: RetrieveIP_def)
  ultimately show ?thesis using RetrieveIP_http_gets by blast
qed

text \<open>
  A call that resolves \<^verbatim>\<open>10.1.2.3\<close>; then, with that address stored, a call whose body
  is empty and a call whose request fails.
\<close>

theorem RetrieveIP_every_call_requests_witness:
  "http_gets (snd (RetrieveIP ''alice'' (Body ''alice=10.1.2.3'') init_mem world0)) = [node_url ''alice''] \<and>
   fst (RetrieveIP ''alice'' (Body ''alice=10.1.2.3'') init_mem world0) =
     Return (''10.1.2.3'', init_mem\<lparr>ip := ''10.1.2.3''\<rparr>) \<and>
   NodeIP (init_mem\<lparr>ip := ''10.1.2.3''\<rparr>) = ''10.1.2.3'' \<and>
   scan_lines [] = [] \<and>
   fst (RetrieveIP ''alice'' (Body []) (init_mem\<lparr>ip := ''10.1.2.3''\<rparr>) world0) =
     Return (''10.1.2.3'', init_mem\<lparr>ip := ''10.1.2.3''\<rparr>) \<and>
   fst (RetrieveIP ''alice'' GetFailed (init_mem\<lparr>ip := ''10.1.2.3''\<rparr>) world0) =
     Return ([], init_mem\<lparr>ip := ''10.1.2.3''\<rparr>)"
proof -
  have first: "fst (RetrieveIP ''alice'' (Body ''alice=10.1.2.3'') init_mem world0) =
      Return (''10.1.2.3'', init_mem\<lparr>ip := ''10.1.2.3''\<rparr>)"
    by (simp add: RetrieveIP_def scan_eval)
  have none: "scan_lines [] = []"
    by (simp add: scan_lines.simps)
  show ?thesis
    using RetrieveIP_every_call_requests [of "''alice''" "Body ''alice=10.1.2.3''" init_mem world0]
      RetrieveIP_every_call_requests [of "''alice''" "Body []" "init_mem\<lparr>ip := ''10.1.2.3''\<rparr>" world0]
      RetrieveIP_every_call_requests [of "''alice''" GetFailed "init_mem\<lparr>ip := ''10.1.2.3''\<rparr>" world0]
      first none
    by (simp add: world0_def NodeIP_def)
qed

text \<open>
  C5 as stated fails: after a call that resolved \<^verbatim>\<open>10.1.2.3\<close>, a second call in the same
  process issues a second request and returns what the second response says.
\<close>

theorem RetrieveIP_second_call_counterexample:
  "fst (RetrieveIP ''alice'' (Body ''alice=10.1.2.3'') init_mem world0) =
     Return (''10.1.2.3'', init_mem\<lparr>ip := ''10.1.2.3''\<rparr>) \<and>
   fst (RetrieveIP ''alice'' (Body ''alice=10.9.9.9'') (init_mem\<lparr>ip := ''10.1.2.3''\<rparr>)
          (snd (RetrieveIP ''alice'' (Body ''alice=10.1.2.3'') init_mem world0))) =
     Return (''10.9.9.9'', init_mem\<lparr>ip := ''10.9.9.9''\<rparr>) \<and>
   http_gets (snd (RetrieveIP ''alice'' (Body ''alice=10.9.9.9'') (init_mem\<lparr>ip := ''10.1.2.3''\<rparr>)
          (snd (RetrieveIP ''alice'' (Body ''alice=10.1.2.3'') init_mem world0)))) =
     [node_url ''alice'', node_url ''alice'']"
  by (simp add: RetrieveIP_def scan_eval world0_def)

section \<open>Properties of the entitlement check\<close>

lemma getKeyFile_absent:
  "files w (dir @ ''/.ssh/id_rsa'') = None \<Longrightarrow>
     getKeyFile (Some dir) parse w =
       Return (Inl (GoError (''open '' @ dir @ ''/.ssh/id_rsa: no such file or directory'')))"
  by (simp add: getKeyFile_def)

lemma getKeyFile_read:
  "files w (dir @ ''/.ssh/id_rsa'') = Some buf \<Longrightarrow> getKeyFile (Some dir) parse w = Return (parse buf)"
  by (simp add: getKeyFile_def)

lemma ConfirmAccess_key_error:
  "getKeyFile home parse w = Return (Inl err) \<Longrightarrow>
     ConfirmAccess u home parse dial w = (Return (Some err), w)"
  by (simp add: ConfirmAccess_def)

lemma ConfirmAccess_dial_failed:
  "getKeyFile home parse w = Return (Inr key) \<Longrightarrow>
     ConfirmAccess u home parse (Some err) w =
       (Return (Some err),
        w\<lparr>ssh_dials := ssh_dials w @ [(master @ '':26'', u)],
          stdout := stdout w @
            [if Error err = no_methods_remain then ''Failed to dial: out of bandwidth or date''
             else ''Failed to dial: '' @ Error err]\<rparr>)"
  by (simp add: ConfirmAccess_def)

text \<open>
  With the home directory known: when the key file there cannot be read, or
  \<^verbatim>\<open>ssh.ParsePrivateKey\<close> rejects its contents, \<^verbatim>\<open>ConfirmAccess\<close> returns that error and
  leaves the world as it was: \<^verbatim>\<open>ssh.Dial\<close> is not called.
\<close>

lemma ConfirmAccess_without_key:
  assumes "files w (dir @ ''/.ssh/id_rsa'') = None \<or>
           (\<exists>buf err. files w (dir @ ''/.ssh/id_rsa'') = Some buf \<and> parse buf = Inl err)"
  shows "(\<exists>err. fst (ConfirmAccess u (Some dir) parse dial w) = Return (Some err)) \<and>
         snd (ConfirmAccess u (Some dir) parse dial w) = w \<and>
         ssh_dials (snd (ConfirmAccess u (Some dir) parse dial w)) = ssh_dials w"
proof -
  from assms obtain err where "getKeyFile (Some dir) parse w = Return (Inl err)"
    by (auto simp: getKeyFile_absent getKeyFile_read)
  then have "ConfirmAccess u (Some dir) parse dial w = (Return (Some err), w)"
    by (rule ConfirmAccess_key_error)
  then show ?thesis by simp
qed

text \<open>An absent key file, and a key file whose contents do not parse.\<close>

lemma ConfirmAccess_without_key_examples:
  "files world0 (''/home/alice'' @ ''/.ssh/id_rsa'') = None \<and>
   (\<exists>err. fst (ConfirmAccess ''alice'' (Some ''/home/alice'') (\<lambda>buf. Inr buf) None world0) =
      Return (Some err)) \<and>
   ssh_dials (snd (ConfirmAccess ''alice'' (Some ''/home/alice'') (\<lambda>buf. Inr buf) None world0)) = [] \<and>
   files world_key (''/home/alice'' @ ''/.ssh/id_rsa'') = Some ''KEY'' \<and>
   (\<exists>err. fst (ConfirmAccess ''alice'' (Some ''/home/alice'') (\<lambda>buf. Inl (GoError ''ssh: no key found''))
      None world_key) = Return (Some err)) \<and>
   ssh_dials (snd (ConfirmAccess ''alice'' (Some ''/home/alice'') (\<lambda>buf. Inl (GoError ''ssh: no key found''))
      None world_key)) = []"
proof -
  have absent: "files world0 (''/home/alice'' @ ''/.ssh/id_rsa'') = None"
    by (simp add: world0_def)
  have present: "files world_key (''/home/alice'' @ ''/.ssh/id_rsa'') = Some ''KEY''"
    by (simp add: world_key_def)
  have bad: "\<exists>buf err. files world_key (''/home/alice'' @ ''/.ssh/id_rsa'') = Some buf \<and>
      (\<lambda>buf. Inl (GoError ''ssh: no key found'') :: go_error + signer) buf = Inl err"
    using present by blast
  show ?thesis
    using ConfirmAccess_without_key [of world0 "''/home/alice''" "\<lambda>buf. Inr buf" "''alice''" None,
        OF disjI1, OF absent]
      ConfirmAccess_without_key [of world_key "''/home/alice''"
        "\<lambda>buf. Inl (GoError ''ssh: no key found'')" "''alice''" None, OF disjI2, OF bad]
      absent present
    by (simp add: world0_def world_key_def)
qed

text \<open>
  C7. The claim fails where \<^verbatim>\<open>user.Current()\<close> fails: \<^verbatim>\<open>getKeyFile\<close> returns the errors
  of \<^verbatim>\<open>ioutil.ReadFile\<close> and \<^verbatim>\<open>ssh.ParsePrivateKey\<close>, but it drops the error of
  \<^verbatim>\<open>user.Current()\<close> and reads \<^verbatim>\<open>usr.HomeDir\<close> of the nil result. No key can be read
  then, and \<^verbatim>\<open>ConfirmAccess\<close> panics instead of returning an error (still before any dial).
\<close>

theorem ConfirmAccess_no_home_panics:
  "ConfirmAccess u None parse dial w = (Panic, w)"
  by (simp add: ConfirmAccess_def getKeyFile_def)

text \<open>
  C3 (as amended). With the key loaded and the handshake failed, \<^verbatim>\<open>ConfirmAccess\<close> dials
  once and returns the error of \<^verbatim>\<open>ssh.Dial\<close> itself, whatever its message. Its comparison
  of the message with the "no supported methods remain" signature decides the line it
  prints and nothing else.
\<close>

theorem ConfirmAccess_failure_passed_through:
  assumes "getKeyFile home parse w = Return (Inr key)"
  shows "fst (ConfirmAccess u home parse (Some err) w) = Return (Some err) \<and>
         stdout (snd (ConfirmAccess u home parse (Some err) w)) =
           stdout w @
             [if Error err = no_methods_remain then ''Failed to dial: out of bandwidth or date''
              else ''Failed to dial: '' @ Error err] \<and>
         ssh_dials (snd (ConfirmAccess u home parse (Some err) w)) =
           ssh_dials w @ [(master @ '':26'', u)]"
  using assms by (simp add: ConfirmAccess_dial_failed)

lemma world_key_loaded:
  "getKeyFile (Some ''/home/alice'') (\<lambda>buf. Inr buf) world_key = Return (Inr ''KEY'')"
  by (simp add: getKeyFile_def world_key_def)

text \<open>The rejection signature, and a timeout of the dial.\<close>

theorem ConfirmAccess_failure_passed_through_witness:
  "getKeyFile (Some ''/home/alice'') (\<lambda>buf. Inr buf) world_key = Return (Inr ''KEY'') \<and>
   fst (ConfirmAccess ''alice'' (Some ''/home/alice'') (\<lambda>buf. Inr buf)
          (Some (GoError no_methods_remain)) world_key) =
     Return (Some (GoError no_methods_remain)) \<and>
   stdout (snd (ConfirmAccess ''alice'' (Some ''/home/alice'') (\<lambda>buf. Inr buf)
          (Some (GoError no_methods_remain)) world_key)) =
     [''Failed to dial: out of bandwidth or date''] \<and>
   fst (ConfirmAccess ''alice'' (Some ''/home/alice'') (\<lambda>buf. Inr buf)
          (Some (GoError ''dial tcp 185.92.221.13:26: i/o timeout'')) world_key) =
     Return (Some (GoError ''dial tcp 185.92.221.13:26: i/o timeout'')) \<and>
   stdout (snd (ConfirmAccess ''alice'' (Some ''/home/alice'') (\<lambda>buf. Inr buf)
          (Some (GoError ''dial tcp 185.92.221.13:26: i/o timeout'')) world_key)) =
     [''Failed to dial: dial tcp 185.92.221.13:26: i/o timeout'']"
  using ConfirmAccess_failure_passed_through [OF world_key_loaded, of "''alice''" "GoError no_methods_remain"]
    ConfirmAccess_failure_passed_through [OF world_key_loaded, of "''alice''"
      "GoError ''dial tcp 185.92.221.13:26: i/o timeout''"]
    world_key_loaded
  by (simp add: world_key_def world0_def no_methods_remain_def)

text \<open>
  C3 as stated fails: the result is not one of three distinguished errors chosen by the
  class of the failure. Three failures that are not the rejection (a timeout, a refused
  connection, a handshake cut short) come back as three different errors, each the error
  of \<^verbatim>\<open>ssh.Dial\<close> as it was, and the rejection comes back as the error of \<^verbatim>\<open>ssh.Dial\<close>
  too; so no choice of an error for the rejection and of two errors for everything else
  describes what \<^verbatim>\<open>ConfirmAccess\<close> returns.
\<close>

theorem ConfirmAccess_no_classes_counterexample:
  "fst (ConfirmAccess ''alice'' (Some ''/home/alice'') (\<lambda>buf. Inr buf)
          (Some (GoError no_methods_remain)) world_key) =
     Return (Some (GoError no_methods_remain)) \<and>
   fst (ConfirmAccess ''alice'' (Some ''/home/alice'') (\<lambda>buf. Inr buf)
          (Some (GoError ''dial tcp 185.92.221.13:26: i/o timeout'')) world_key) =
     Return (Some (GoError ''dial tcp 185.92.221.13:26: i/o timeout'')) \<and>
   fst (ConfirmAccess ''alice'' (Some ''/home/alice'') (\<lambda>buf. Inr buf)
          (Some (GoError ''dial tcp 185.92.221.13:26: connect: connection refused'')) world_key) =
     Return (Some (GoError ''dial tcp 185.92.221.13:26: connect: connection refused'')) \<and>
   fst (ConfirmAccess ''alice'' (Some ''/home/alice'') (\<lambda>buf. Inr buf)
          (Some (GoError ''ssh: handshake failed: EOF'')) world_key) =
     Return (Some (GoError ''ssh: handshake failed: EOF'')) \<and>
   \<not> (\<exists>rejected connectivity unknown.
        \<forall>err.
          (Error err = no_methods_remain \<longrightarrow>
             fst (ConfirmAccess ''alice'' (Some ''/home/alice'') (\<lambda>buf. Inr buf) (Some err) world_key) =
               Return (Some rejected)) \<and>
          (Error err \<noteq> no_methods_remain \<longrightarrow>
             fst (ConfirmAccess ''alice'' (Some ''/home/alice'') (\<lambda>buf. Inr buf) (Some err) world_key) =
               Return (Some connectivity) \<or>
             fst (ConfirmAccess ''alice'' (Some ''/home/alice'') (\<lambda>buf. Inr buf) (Some err) world_key) =
               Return (Some unknown)))"
proof -
  have passed: "fst (ConfirmAccess ''alice'' (Some ''/home/alice'') (\<lambda>buf. Inr buf) (Some err) world_key) =
      Return (Some err)" for err
    using world_key_loaded by (simp add: ConfirmAccess_dial_failed)
  have "\<not> (\<exists>connectivity unknown :: go_error.
      \<forall>err. Error err \<noteq> no_methods_remain \<longrightarrow> err = connectivity \<or> err = unknown)"
  proof
    assume "\<exists>connectivity unknown :: go_error.
      \<forall>err. Error err \<noteq> no_methods_remain \<longrightarrow> err = connectivity \<or> err = unknown"
    then obtain c n :: go_error where
      two: "\<And>err. Error err \<noteq> no_methods_remain \<Longrightarrow> err = c \<or> err = n"
      by blast
    have a: "Error (GoError ''dial tcp 185.92.221.13:26: i/o timeout'') \<noteq> no_methods_remain"
      and b: "Error (GoError ''dial tcp 185.92.221.13:26: connect: connection refused'') \<noteq> no_methods_remain"
      and e: "Error (GoError ''ssh: handshake failed: EOF'') \<noteq> no_methods_remain"
      by (simp_all add: no_methods_remain_def)
    from two [OF a] two [OF b] two [OF e] show False
      by auto
  qed
  then show ?thesis
    by (simp add: passed) blast
qed

section \<open>Properties of configuration synthesis\<close>

lemma is_objE: "is_obj j \<Longrightarrow> (\<And>obj. j = JObj obj \<Longrightarrow> P) \<Longrightarrow> P"
  by (cases j) (simp_all add: is_obj_def)

lemma is_arrE: "is_arr j \<Longrightarrow> (\<And>xs. j = JArr xs \<Longrightarrow> P) \<Longrightarrow> P"
  by (cases j) (simp_all add: is_arr_def)

lemma sub_obj: "sub k (JObj obj) = (case obj k of Some v \<Rightarrow> v | None \<Rightarrow> JNull)"
  by (simp add: sub_def field_def)

lemma sub_eq_obj: "sub k (JObj obj) = JObj x \<Longrightarrow> obj k = Some (JObj x)"
  by (simp add: sub_obj split: option.splits)

lemma sub_eq_arr: "sub k (JObj obj) = JArr xs \<Longrightarrow> obj k = Some (JArr xs)"
  by (simp add: sub_obj split: option.splits)

lemma set_ids_ok:
  "list_all is_obj us \<Longrightarrow> \<exists>us'. set_ids S us = Return us' \<and> list_all2 (id_set S) us us'"
proof (induction us)
  case Nil
  then show ?case by simp
next
  case (Cons u us)
  then obtain us' where rest: "set_ids S us = Return us'" "list_all2 (id_set S) us us'"
    by auto
  from Cons.prems obtain um where u: "u = JObj um"
    by (auto elim: is_objE)
  have "id_set S u (JObj (um(''id'' \<mapsto> JStr S)))"
    by (simp add: u id_set_def same_except_def is_obj_def field_def sub_def)
  with rest u show ?case by simp
qed

lemma set_ids_panic: "\<not> list_all is_obj us \<Longrightarrow> set_ids S us = Panic"
proof (induction us)
  case Nil
  then show ?case by simp
next
  case (Cons u us)
  show ?case
  proof (cases "is_obj u")
    case True
    then obtain um where "u = JObj um" by (auto elim: is_objE)
    moreover from True Cons have "set_ids S us = Panic" by simp
    ultimately show ?thesis by simp
  next
    case False
    then show ?thesis by (cases u) (simp_all add: is_obj_def)
  qed
qed

lemma entry_step:
  assumes "valid_vnext_entry v"
  shows "\<exists>vm us us'. v = JObj vm \<and> vm ''users'' = Some (JArr us) \<and> set_ids S us = Return us' \<and>
           entry_set A S v (JObj (vm(''address'' \<mapsto> JStr A, ''users'' \<mapsto> JArr us')))"
proof -
  from assms obtain vm where v: "v = JObj vm"
    by (auto simp: valid_vnext_entry_def elim: is_objE)
  from assms v obtain us where us: "vm ''users'' = Some (JArr us)"
    by (auto simp: valid_vnext_entry_def elim!: is_arrE dest: sub_eq_arr)
  from assms v us have "list_all is_obj us"
    by (simp add: valid_vnext_entry_def users_of_def sub_obj elems_def)
  then obtain us' where ids: "set_ids S us = Return us'" "list_all2 (id_set S) us us'"
    using set_ids_ok by blast
  have "entry_set A S v (JObj (vm(''address'' \<mapsto> JStr A, ''users'' \<mapsto> JArr us')))"
    using ids(2) by (simp add: v us entry_set_def same_except_def is_obj_def is_arr_def field_def
        sub_def users_of_def elems_def)
  with v us ids(1) show ?thesis by blast
qed

lemma set_vnext_ok:
  "list_all valid_vnext_entry vs \<Longrightarrow>
     \<exists>vs'. set_vnext A S vs = Return vs' \<and> list_all2 (entry_set A S) vs vs'"
proof (induction vs)
  case Nil
  then show ?case by simp
next
  case (Cons v vs)
  then obtain vs' where rest: "set_vnext A S vs = Return vs'" "list_all2 (entry_set A S) vs vs'"
    by auto
  from Cons.prems have "valid_vnext_entry v" by simp
  from entry_step [OF this, of S A] obtain vm us us' where
    step: "v = JObj vm" "vm ''users'' = Some (JArr us)" "set_ids S us = Return us'"
      "entry_set A S v (JObj (vm(''address'' \<mapsto> JStr A, ''users'' \<mapsto> JArr us')))"
    by blast
  from step(1-3) rest(1) have
    "set_vnext A S (v # vs) = Return (JObj (vm(''address'' \<mapsto> JStr A, ''users'' \<mapsto> JArr us')) # vs')"
    by simp
  with step(4) rest(2) show ?case by simp
qed

lemma set_vnext_panic: "\<not> list_all valid_vnext_entry vs \<Longrightarrow> set_vnext A S vs = Panic"
proof (induction vs)
  case Nil
  then show ?case by simp
next
  case (Cons v vs)
  show ?case
  proof (cases "valid_vnext_entry v")
    case True
    from entry_step [OF this, of S A] obtain vm us us' where
      step: "v = JObj vm" "vm ''users'' = Some (JArr us)" "set_ids S us = Return us'"
      by blast
    from True Cons have "set_vnext A S vs = Panic" by simp
    with step show ?thesis by simp
  next
    case False
    show ?thesis
    proof (cases v)
      case (JObj vm)
      show ?thesis
      proof (cases "vm ''users''")
        case None
        with JObj show ?thesis by simp
      next
        case (Some j)
        show ?thesis
        proof (cases j)
          case (JArr us)
          with False JObj Some have "\<not> list_all is_obj us"
            by (simp add: valid_vnext_entry_def is_obj_def is_arr_def users_of_def sub_obj elems_def)
          then have "set_ids S us = Panic" by (rule set_ids_panic)
          with JObj Some JArr show ?thesis by simp
        qed (use JObj Some in simp_all)
      qed
    qed simp_all
  qed
qed

lemma Unmarshal_obj:
  "Unmarshal (Inr (JObj c)) cf = (None, Some (case cf of None \<Rightarrow> c | Some old \<Rightarrow> old ++ c))"
  by (cases cf) simp_all

lemma merged_key:
  "c k = Some v \<Longrightarrow> (case cf of None \<Rightarrow> c | Some old \<Rightarrow> old ++ c) k = Some v"
  by (cases cf) simp_all

lemma valid_template_parts:
  assumes "valid_template T"
  obtains c ob st vs where "T = JObj c" and "c ''outbound'' = Some (JObj ob)"
    and "ob ''settings'' = Some (JObj st)" and "st ''vnext'' = Some (JArr vs)"
    and "list_all valid_vnext_entry vs"
proof -
  from assms obtain c where T: "T = JObj c"
    by (auto simp: valid_template_def elim: is_objE)
  from assms T have "is_obj (sub ''outbound'' (JObj c))"
    by (simp add: valid_template_def)
  then obtain ob where ob: "c ''outbound'' = Some (JObj ob)"
    by (auto elim!: is_objE dest: sub_eq_obj)
  then have s1: "sub ''outbound'' (JObj c) = JObj ob"
    by (simp add: sub_obj)
  from assms T have "is_obj (sub ''settings'' (JObj ob))"
    by (simp add: valid_template_def s1)
  then obtain st where st: "ob ''settings'' = Some (JObj st)"
    by (auto elim!: is_objE dest: sub_eq_obj)
  then have s2: "sub ''settings'' (JObj ob) = JObj st"
    by (simp add: sub_obj)
  from assms T have "is_arr (sub ''vnext'' (JObj st))"
    by (simp add: valid_template_def s1 s2)
  then obtain vs where vs: "st ''vnext'' = Some (JArr vs)"
    by (auto elim!: is_arrE dest: sub_eq_arr)
  then have s3: "sub ''vnext'' (JObj st) = JArr vs"
    by (simp add: sub_obj)
  from assms T have "list_all valid_vnext_entry vs"
    by (simp add: valid_template_def vnext_of_def s1 s2 s3 elems_def)
  with T ob st vs show ?thesis by (rule that)
qed

lemma GenConfig_descend:
  assumes "c ''outbound'' = Some (JObj ob)" and "ob ''settings'' = Some (JObj st)"
    and "st ''vnext'' = Some (JArr vs)" and "set_vnext A S vs = Return vs'"
    and "D = (case conf m of None \<Rightarrow> c | Some old \<Rightarrow> old ++ c)"
    and "D' = D(''outbound'' \<mapsto> JObj (ob(''settings'' \<mapsto> JObj (st(''vnext'' \<mapsto> JArr vs')))))"
  shows "GenConfig (Inr (JObj c)) A S wr m w =
           (Return (wr, m\<lparr>conf := Some D'\<rparr>),
            case wr of None \<Rightarrow> w\<lparr>config_json := Some (Marshal (JObj D'))\<rparr> | Some err \<Rightarrow> w)"
proof -
  have "D ''outbound'' = Some (JObj ob)"
    using assms(1,5) by (simp add: merged_key)
  then show ?thesis
    using assms by (simp add: GenConfig_def Unmarshal_obj Let_def split: option.splits)
qed

lemma GenConfig_valid:
  assumes "valid_template T"
  obtains c ob st vs vs' D' where "T = JObj c" and "c ''outbound'' = Some (JObj ob)"
    and "ob ''settings'' = Some (JObj st)" and "st ''vnext'' = Some (JArr vs)"
    and "list_all2 (entry_set A S) vs vs'"
    and "D' = (case conf m of None \<Rightarrow> c | Some old \<Rightarrow> old ++ c)
                (''outbound'' \<mapsto> JObj (ob(''settings'' \<mapsto> JObj (st(''vnext'' \<mapsto> JArr vs')))))"
    and "GenConfig (Inr T) A S wr m w =
           (Return (wr, m\<lparr>conf := Some D'\<rparr>),
            case wr of None \<Rightarrow> w\<lparr>config_json := Some (Marshal (JObj D'))\<rparr> | Some err \<Rightarrow> w)"
proof -
  from assms obtain c ob st vs where parts: "T = JObj c" "c ''outbound'' = Some (JObj ob)"
    "ob ''settings'' = Some (JObj st)" "st ''vnext'' = Some (JArr vs)"
    "list_all valid_vnext_entry vs"
    by (rule valid_template_parts)
  from set_vnext_ok [OF parts(5), of A S] obtain vs' where
    vs': "set_vnext A S vs = Return vs'" "list_all2 (entry_set A S) vs vs'"
    by blast
  define D' where "D' = (case conf m of None \<Rightarrow> c | Some old \<Rightarrow> old ++ c)
      (''outbound'' \<mapsto> JObj (ob(''settings'' \<mapsto> JObj (st(''vnext'' \<mapsto> JArr vs')))))"
  have "GenConfig (Inr (JObj c)) A S wr m w =
      (Return (wr, m\<lparr>conf := Some D'\<rparr>),
       case wr of None \<Rightarrow> w\<lparr>config_json := Some (Marshal (JObj D'))\<rparr> | Some err \<Rightarrow> w)"
    using parts(2-4) vs'(1) refl D'_def by (rule GenConfig_descend)
  with parts vs'(2) D'_def show ?thesis
    by (auto intro: that)
qed

lemma entry_set_values:
  "entry_set A S v v' \<Longrightarrow>
     sub ''address'' v' = JStr A \<and>
     list_all2 (\<lambda>u u'. sub ''id'' u' = JStr S) (users_of v) (users_of v')"
  by (auto simp: entry_set_def id_set_def elim: list_all2_mono)

lemma entry_set_frame:
  "entry_set A S v v' \<Longrightarrow>
     same_except {''address'', ''users''} v v' \<and>
     list_all2 (same_except {''id''}) (users_of v) (users_of v')"
  by (auto simp: entry_set_def id_set_def elim: list_all2_mono)

text \<open>Reading a document that \<^verbatim>\<open>json.Marshal\<close> wrote.\<close>

lemma sub_Marshal: "sub k (Marshal j) = Marshal (sub k j)"
  by (cases j) (simp_all add: sub_def field_def split: option.splits)

lemma elems_Marshal: "elems (Marshal j) = map Marshal (elems j)"
  by (cases j) (simp_all add: elems_def)

lemma users_of_Marshal: "users_of (Marshal v) = map Marshal (users_of v)"
  by (simp add: users_of_def sub_Marshal elems_Marshal)

lemma vnext_of_Marshal: "vnext_of (Marshal d) = map Marshal (vnext_of d)"
  by (simp add: vnext_of_def sub_Marshal elems_Marshal)

lemma ValidString_encoded: "ValidString s \<Longrightarrow> encoded_string s = s"
proof (induction s rule: encoded_string.induct)
  case 1
  then show ?case by (simp add: encoded_string.simps)
next
  case (2 b bs)
  from "2.prems" have w: "rune_width (b # bs) \<noteq> 0"
    and v: "ValidString (drop (rune_width (b # bs) - 1) bs)"
    by (simp_all add: ValidString.simps)
  from "2.IH"(2) w v have
    "encoded_string (drop (rune_width (b # bs) - 1) bs) = drop (rune_width (b # bs) - 1) bs"
    by simp
  with w show ?case
    by (simp add: encoded_string.simps)
qed

lemma entry_set_written:
  assumes "entry_set A S v v'"
  shows "sub ''address'' (Marshal v') = JStr (encoded_string A) \<and>
         list_all2 (\<lambda>u u'. sub ''id'' u' = JStr (encoded_string S)) (users_of v) (users_of (Marshal v'))"
proof -
  from assms have a: "sub ''address'' v' = JStr A"
    and ids: "list_all2 (\<lambda>u u'. sub ''id'' u' = JStr S) (users_of v) (users_of v')"
    by (simp_all add: entry_set_values)
  from ids have "list_all2 (\<lambda>u u'. sub ''id'' (Marshal u') = JStr (encoded_string S))
      (users_of v) (users_of v')"
    by (rule list_all2_mono) (simp add: sub_Marshal)
  with a show ?thesis
    by (simp add: sub_Marshal users_of_Marshal list_all2_map2)
qed

text \<open>
  C1 (as amended). For a template of the expected shape, \<^verbatim>\<open>GenConfig\<close> returns the outcome
  of the write, and in the document \<^verbatim>\<open>conf\<close> holds the server list has as many entries
  as the template's, every entry has the address \<open>A\<close> and as many users as before, and
  every user has the identifier \<open>S\<close>. When the write succeeds, the document in the artifact
  is what \<^verbatim>\<open>json.Marshal\<close> writes for that document: it holds \<open>A\<close> and \<open>S\<close> as the encoder
  writes them, which is \<open>A\<close> and \<open>S\<close> themselves when they are valid UTF-8.
\<close>

theorem GenConfig_address_and_ids:
  assumes "valid_template T"
  shows "returned (fst (GenConfig (Inr T) A S wr m w)) = Return wr \<and>
         list_all2
           (\<lambda>v v'. sub ''address'' v' = JStr A \<and>
              list_all2 (\<lambda>u u'. sub ''id'' u' = JStr S) (users_of v) (users_of v'))
           (vnext_of T) (vnext_of (conf_after (fst (GenConfig (Inr T) A S wr m w)))) \<and>
         (wr = None \<longrightarrow>
            config_json (snd (GenConfig (Inr T) A S wr m w)) =
              Some (Marshal (conf_after (fst (GenConfig (Inr T) A S wr m w)))) \<and>
            list_all2
              (\<lambda>v v'. sub ''address'' v' = JStr (encoded_string A) \<and>
                 list_all2 (\<lambda>u u'. sub ''id'' u' = JStr (encoded_string S)) (users_of v) (users_of v'))
              (vnext_of T) (vnext_of (artifact (snd (GenConfig (Inr T) A S wr m w))))) \<and>
         (wr = None \<longrightarrow> ValidString A \<longrightarrow> ValidString S \<longrightarrow>
            list_all2
              (\<lambda>v v'. sub ''address'' v' = JStr A \<and>
                 list_all2 (\<lambda>u u'. sub ''id'' u' = JStr S) (users_of v) (users_of v'))
              (vnext_of T) (vnext_of (artifact (snd (GenConfig (Inr T) A S wr m w)))))"
proof -
  from assms obtain c ob st vs vs' D' where T: "T = JObj c"
    and ob: "c ''outbound'' = Some (JObj ob)" and st: "ob ''settings'' = Some (JObj st)"
    and vs: "st ''vnext'' = Some (JArr vs)" and rel: "list_all2 (entry_set A S) vs vs'"
    and D': "D' = (case conf m of None \<Rightarrow> c | Some old \<Rightarrow> old ++ c)
                (''outbound'' \<mapsto> JObj (ob(''settings'' \<mapsto> JObj (st(''vnext'' \<mapsto> JArr vs')))))"
    and run: "GenConfig (Inr T) A S wr m w =
           (Return (wr, m\<lparr>conf := Some D'\<rparr>),
            case wr of None \<Rightarrow> w\<lparr>config_json := Some (Marshal (JObj D'))\<rparr> | Some err \<Rightarrow> w)"
    by (rule GenConfig_valid)
  have old: "vnext_of T = vs"
    by (simp add: T ob st vs vnext_of_def sub_obj elems_def)
  have new: "vnext_of (JObj D') = vs'"
    by (simp add: D' vnext_of_def sub_obj elems_def)
  have after: "conf_after (fst (GenConfig (Inr T) A S wr m w)) = JObj D'"
    by (simp add: run conf_after_def)
  have "list_all2
      (\<lambda>v v'. sub ''address'' v' = JStr A \<and>
         list_all2 (\<lambda>u u'. sub ''id'' u' = JStr S) (users_of v) (users_of v')) vs vs'"
    using rel by (rule list_all2_mono) (rule entry_set_values)
  then have held: "list_all2
      (\<lambda>v v'. sub ''address'' v' = JStr A \<and>
         list_all2 (\<lambda>u u'. sub ''id'' u' = JStr S) (users_of v) (users_of v'))
      (vnext_of T) (vnext_of (conf_after (fst (GenConfig (Inr T) A S wr m w))))"
    by (simp add: after old new)
  have ret: "returned (fst (GenConfig (Inr T) A S wr m w)) = Return wr"
    by (simp add: run returned_def)
  have saved: "config_json (snd (GenConfig (Inr T) A S wr m w)) =
      Some (Marshal (conf_after (fst (GenConfig (Inr T) A S wr m w))))"
    and art: "artifact (snd (GenConfig (Inr T) A S wr m w)) = Marshal (JObj D')"
    if "wr = None"
    using run that by (simp_all add: conf_after_def artifact_def)
  have "list_all2
      (\<lambda>v v'. sub ''address'' (Marshal v') = JStr (encoded_string A) \<and>
         list_all2 (\<lambda>u u'. sub ''id'' u' = JStr (encoded_string S)) (users_of v) (users_of (Marshal v')))
      vs vs'"
    using rel by (rule list_all2_mono) (rule entry_set_written)
  then have mapped: "list_all2
      (\<lambda>v v'. sub ''address'' v' = JStr (encoded_string A) \<and>
         list_all2 (\<lambda>u u'. sub ''id'' u' = JStr (encoded_string S)) (users_of v) (users_of v'))
      vs (map Marshal vs')"
    by (simp add: list_all2_map2)
  have vm: "vnext_of (Marshal (JObj D')) = map Marshal vs'"
    by (simp only: vnext_of_Marshal new)
  have written: "list_all2
      (\<lambda>v v'. sub ''address'' v' = JStr (encoded_string A) \<and>
         list_all2 (\<lambda>u u'. sub ''id'' u' = JStr (encoded_string S)) (users_of v) (users_of v'))
      (vnext_of T) (vnext_of (artifact (snd (GenConfig (Inr T) A S wr m w))))"
    if "wr = None"
    unfolding art [OF that] vm old by (rule mapped)
  have same: "list_all2
      (\<lambda>v v'. sub ''address'' v' = JStr A \<and>
         list_all2 (\<lambda>u u'. sub ''id'' u' = JStr S) (users_of v) (users_of v'))
      (vnext_of T) (vnext_of (artifact (snd (GenConfig (Inr T) A S wr m w))))"
    if "wr = None" and "ValidString A" and "ValidString S"
    using written [OF that(1)] that(2,3) by (simp add: ValidString_encoded)
  from ret held saved written same show ?thesis
    by blast
qed

lemmas temp_eval = temp_def temp_outbound_def temp_vnext_def valid_template_def valid_vnext_entry_def
  is_obj_def is_arr_def sub_def field_def elems_def vnext_of_def users_of_def

lemmas utf8_eval = encoded_string.simps ValidString.simps rune_width_def continuation_def
  between_def RuneError_def

lemma temp_vnext_after:
  "vnext_of (conf_after (fst (GenConfig (Inr temp) A S None init_mem world0))) =
      [JObj ((map_of [(''address'', JStr ''freedomland.tk''), (''port'', JNum 443),
          (''users'', JArr [JObj (map_of [(''id'', JStr ''b831381d-6324-4d53-ad4f-8cda48b30811''),
             (''alterId'', JNum 64)])])])
        (''address'' \<mapsto> JStr A,
         ''users'' \<mapsto> JArr [JObj ((map_of [(''id'', JStr ''b831381d-6324-4d53-ad4f-8cda48b30811''),
             (''alterId'', JNum 64)])(''id'' \<mapsto> JStr S))]))]"
  by (simp add: GenConfig_def init_mem_def conf_after_def Let_def temp_eval)

lemma GenConfig_artifact:
  assumes "valid_template T"
  shows "artifact (snd (GenConfig (Inr T) A S None m w)) =
           Marshal (conf_after (fst (GenConfig (Inr T) A S None m w)))"
proof -
  define wr where "wr = (None :: go_error option)"
  from assms obtain D' where "GenConfig (Inr T) A S wr m w =
      (Return (wr, m\<lparr>conf := Some D'\<rparr>),
       case wr of None \<Rightarrow> w\<lparr>config_json := Some (Marshal (JObj D'))\<rparr> | Some err \<Rightarrow> w)"
    by (rule GenConfig_valid)
  then show ?thesis
    by (simp add: wr_def artifact_def conf_after_def)
qed

lemma temp_artifact:
  "artifact (snd (GenConfig (Inr temp) A S None init_mem world0)) =
     Marshal (conf_after (fst (GenConfig (Inr temp) A S None init_mem world0)))"
  by (rule GenConfig_artifact) (simp add: temp_eval)

text \<open>
  Scenario A of the specification on the template of the program: address
  \<^verbatim>\<open>198.51.100.7\<close>, secret \<^verbatim>\<open>uuid-123\<close>, both valid UTF-8.
\<close>

theorem GenConfig_address_and_ids_witness:
  "valid_template temp \<and> ValidString ''198.51.100.7'' \<and> ValidString ''uuid-123'' \<and>
   returned (fst (GenConfig (Inr temp) ''198.51.100.7'' ''uuid-123'' None init_mem world0)) = Return None \<and>
   config_json (snd (GenConfig (Inr temp) ''198.51.100.7'' ''uuid-123'' None init_mem world0)) =
     Some (Marshal (conf_after (fst (GenConfig (Inr temp) ''198.51.100.7'' ''uuid-123'' None init_mem world0)))) \<and>
   map (sub ''address'')
     (vnext_of (conf_after (fst (GenConfig (Inr temp) ''198.51.100.7'' ''uuid-123'' None init_mem world0)))) =
     [JStr ''198.51.100.7''] \<and>
   map (\<lambda>v. map (sub ''id'') (users_of v))
     (vnext_of (conf_after (fst (GenConfig (Inr temp) ''198.51.100.7'' ''uuid-123'' None init_mem world0)))) =
     [[JStr ''uuid-123'']] \<and>
   map (sub ''address'')
     (vnext_of (artifact (snd (GenConfig (Inr temp) ''198.51.100.7'' ''uuid-123'' None init_mem world0)))) =
     [JStr ''198.51.100.7''] \<and>
   map (\<lambda>v. map (sub ''id'') (users_of v))
     (vnext_of (artifact (snd (GenConfig (Inr temp) ''198.51.100.7'' ''uuid-123'' None init_mem world0)))) =
     [[JStr ''uuid-123'']]"
proof -
  have valid: "valid_template temp"
    by (simp add: temp_eval)
  have utf8: "ValidString ''198.51.100.7''" "ValidString ''uuid-123''"
    by (simp_all add: utf8_eval)
  define U where "U = JObj (map_of [(''id'', JStr ''b831381d-6324-4d53-ad4f-8cda48b30811''),
      (''alterId'', JNum 64)])"
  define E where "E = JObj (map_of [(''address'', JStr ''freedomland.tk''), (''port'', JNum 443),
      (''users'', JArr [U])])"
  have one: "vnext_of temp = [E]"
    by (simp add: E_def U_def temp_eval)
  have user: "users_of E = [U]"
    by (simp add: E_def users_of_def sub_def field_def elems_def)
  note inst = GenConfig_address_and_ids [OF valid, of "''198.51.100.7''" "''uuid-123''" None init_mem world0]
  from inst utf8 have "list_all2
      (\<lambda>v v'. sub ''address'' v' = JStr ''198.51.100.7'' \<and>
         list_all2 (\<lambda>u u'. sub ''id'' u' = JStr ''uuid-123'') (users_of v) (users_of v'))
      (vnext_of temp)
      (vnext_of (artifact (snd (GenConfig (Inr temp) ''198.51.100.7'' ''uuid-123'' None init_mem world0))))"
    by blast
  then obtain z where z:
    "vnext_of (artifact (snd (GenConfig (Inr temp) ''198.51.100.7'' ''uuid-123'' None init_mem world0))) = [z]"
    "sub ''address'' z = JStr ''198.51.100.7''"
    "list_all2 (\<lambda>u u'. sub ''id'' u' = JStr ''uuid-123'') (users_of E) (users_of z)"
    by (auto simp: one list_all2_Cons1)
  from z(3) obtain y where y: "users_of z = [y]" "sub ''id'' y = JStr ''uuid-123''"
    by (auto simp: user list_all2_Cons1)
  have art: "map (sub ''address'')
     (vnext_of (artifact (snd (GenConfig (Inr temp) ''198.51.100.7'' ''uuid-123'' None init_mem world0)))) =
     [JStr ''198.51.100.7'']"
    "map (\<lambda>v. map (sub ''id'') (users_of v))
     (vnext_of (artifact (snd (GenConfig (Inr temp) ''198.51.100.7'' ''uuid-123'' None init_mem world0)))) =
     [[JStr ''uuid-123'']]"
    by (simp_all add: z y)
  from inst have "returned (fst (GenConfig (Inr temp) ''198.51.100.7'' ''uuid-123'' None init_mem world0)) = Return None"
    "config_json (snd (GenConfig (Inr temp) ''198.51.100.7'' ''uuid-123'' None init_mem world0)) =
     Some (Marshal (conf_after (fst (GenConfig (Inr temp) ''198.51.100.7'' ''uuid-123'' None init_mem world0))))"
    by simp_all
  with valid utf8 art show ?thesis
    by (simp add: temp_vnext_after) (simp add: users_of_def sub_def field_def elems_def)
qed

text \<open>
  C1 as stated fails for the document written: the body \<^verbatim>\<open>alice=\<close> followed by the
  byte \<^verbatim>\<open>0xFF\<close> resolves to that one byte, which is not valid UTF-8; with it as the
  address, \<^verbatim>\<open>conf\<close> holds the byte and the artifact holds U+FFFD instead.
\<close>

theorem GenConfig_invalid_utf8_counterexample:
  "fst (RetrieveIP ''alice'' (Body (''alice='' @ [CHR 0xFF])) init_mem world0) =
     Return ([CHR 0xFF], init_mem\<lparr>ip := [CHR 0xFF]\<rparr>) \<and>
   map (sub ''address'')
     (vnext_of (conf_after (fst (GenConfig (Inr temp) [CHR 0xFF] ''uuid-123'' None init_mem world0)))) =
     [JStr [CHR 0xFF]] \<and>
   map (sub ''address'')
     (vnext_of (artifact (snd (GenConfig (Inr temp) [CHR 0xFF] ''uuid-123'' None init_mem world0)))) =
     [JStr [CHR 0xEF, CHR 0xBF, CHR 0xBD]] \<and>
   JStr [CHR 0xEF, CHR 0xBF, CHR 0xBD] \<noteq> JStr [CHR 0xFF]"
proof -
  have resolved: "fst (RetrieveIP ''alice'' (Body (''alice='' @ [CHR 0xFF])) init_mem world0) =
      Return ([CHR 0xFF], init_mem\<lparr>ip := [CHR 0xFF]\<rparr>)"
    by (simp add: RetrieveIP_def scan_eval)
  have "Marshal (JStr [CHR 0xFF]) = JStr [CHR 0xEF, CHR 0xBF, CHR 0xBD]"
    by (simp add: utf8_eval)
  then have "map (sub ''address'')
     (vnext_of (conf_after (fst (GenConfig (Inr temp) [CHR 0xFF] ''uuid-123'' None init_mem world0)))) =
     [JStr [CHR 0xFF]] \<and>
   map (sub ''address'')
     (vnext_of (artifact (snd (GenConfig (Inr temp) [CHR 0xFF] ''uuid-123'' None init_mem world0)))) =
     [JStr [CHR 0xEF, CHR 0xBF, CHR 0xBD]] \<and>
   JStr [CHR 0xEF, CHR 0xBF, CHR 0xBD] \<noteq> JStr [CHR 0xFF]"
    by (simp add: temp_artifact vnext_of_Marshal temp_vnext_after sub_Marshal)
      (simp add: sub_def field_def)
  with resolved show ?thesis
    by blast
qed

lemma GenConfig_valid_returns:
  assumes "valid_template T"
  shows "returned (fst (GenConfig (Inr T) A S wr m w)) = Return wr"
proof -
  from assms obtain D' where "GenConfig (Inr T) A S wr m w =
      (Return (wr, m\<lparr>conf := Some D'\<rparr>),
       case wr of None \<Rightarrow> w\<lparr>config_json := Some (Marshal (JObj D'))\<rparr> | Some err \<Rightarrow> w)"
    by (rule GenConfig_valid)
  then show ?thesis by (simp add: returned_def)
qed

text \<open>
  C6. For a template of the expected shape, the document \<^verbatim>\<open>conf\<close> holds after
  \<^verbatim>\<open>GenConfig\<close> (the one encoded into the artifact) differs from the template only at the
  address of a server entry and the identifier of a user entry: every top-level section of
  the template but \<^verbatim>\<open>outbound\<close> is carried over (and in a fresh process nothing else is
  added), \<^verbatim>\<open>outbound\<close> is the same outside \<^verbatim>\<open>settings\<close>, \<^verbatim>\<open>settings\<close> the same outside
  \<^verbatim>\<open>vnext\<close>, the server list has the same length, each server entry is the same outside
  \<^verbatim>\<open>address\<close> and \<^verbatim>\<open>users\<close>, its user list has the same length, and each user entry is
  the same outside \<^verbatim>\<open>id\<close>.
\<close>

theorem GenConfig_frame:
  fixes T A S wr m w
  assumes "valid_template T"
  defines "d' \<equiv> conf_after (fst (GenConfig (Inr T) A S wr m w))"
  shows "(\<forall>k. k \<noteq> ''outbound'' \<longrightarrow> field k T \<noteq> None \<longrightarrow> field k d' = field k T) \<and>
         (conf m = None \<longrightarrow> same_except {''outbound''} T d') \<and>
         same_except {''settings''} (sub ''outbound'' T) (sub ''outbound'' d') \<and>
         same_except {''vnext''} (sub ''settings'' (sub ''outbound'' T))
           (sub ''settings'' (sub ''outbound'' d')) \<and>
         list_all2
           (\<lambda>v v'. same_except {''address'', ''users''} v v' \<and>
              list_all2 (same_except {''id''}) (users_of v) (users_of v'))
           (vnext_of T) (vnext_of d')"
proof -
  from assms(1) obtain c ob st vs vs' D' where T: "T = JObj c"
    and ob: "c ''outbound'' = Some (JObj ob)" and st: "ob ''settings'' = Some (JObj st)"
    and vs: "st ''vnext'' = Some (JArr vs)" and rel: "list_all2 (entry_set A S) vs vs'"
    and D': "D' = (case conf m of None \<Rightarrow> c | Some old \<Rightarrow> old ++ c)
                (''outbound'' \<mapsto> JObj (ob(''settings'' \<mapsto> JObj (st(''vnext'' \<mapsto> JArr vs')))))"
    and run: "GenConfig (Inr T) A S wr m w =
           (Return (wr, m\<lparr>conf := Some D'\<rparr>),
            case wr of None \<Rightarrow> w\<lparr>config_json := Some (Marshal (JObj D'))\<rparr> | Some err \<Rightarrow> w)"
    by (rule GenConfig_valid)
  have after: "d' = JObj D'"
    by (simp add: d'_def run conf_after_def)
  have top: "\<forall>k. k \<noteq> ''outbound'' \<longrightarrow> field k T \<noteq> None \<longrightarrow> field k d' = field k T"
    by (cases "conf m") (auto simp: after T D' field_def map_add_def)
  have fresh: "conf m = None \<longrightarrow> same_except {''outbound''} T d'"
    by (simp add: after T D' same_except_def is_obj_def field_def)
  have out: "same_except {''settings''} (sub ''outbound'' T) (sub ''outbound'' d')"
    by (simp add: after T D' ob sub_obj same_except_def is_obj_def field_def)
  have set: "same_except {''vnext''} (sub ''settings'' (sub ''outbound'' T))
      (sub ''settings'' (sub ''outbound'' d'))"
    by (simp add: after T D' ob st sub_obj same_except_def is_obj_def field_def)
  have old: "vnext_of T = vs"
    by (simp add: T ob st vs vnext_of_def sub_obj elems_def)
  have new: "vnext_of d' = vs'"
    by (simp add: after D' vnext_of_def sub_obj elems_def)
  have "list_all2
      (\<lambda>v v'. same_except {''address'', ''users''} v v' \<and>
         list_all2 (same_except {''id''}) (users_of v) (users_of v')) vs vs'"
    using rel by (rule list_all2_mono) (rule entry_set_frame)
  with top fresh out set show ?thesis
    by (simp add: old new)
qed

text \<open>
  On the template of the program: the inbound listener, the detours, the routing rules, the
  transport settings, the multiplexing flag, the port of the server and the \<^verbatim>\<open>alterId\<close> of
  the user are what they were.
\<close>

theorem GenConfig_frame_witness:
  "valid_template temp \<and>
   field ''inbound'' (conf_after (fst (GenConfig (Inr temp) ''198.51.100.7'' ''uuid-123'' None init_mem world0))) =
     Some temp_inbound \<and>
   field ''outboundDetour'' (conf_after (fst (GenConfig (Inr temp) ''198.51.100.7'' ''uuid-123'' None init_mem world0))) =
     Some temp_outboundDetour \<and>
   field ''routing'' (conf_after (fst (GenConfig (Inr temp) ''198.51.100.7'' ''uuid-123'' None init_mem world0))) =
     Some temp_routing \<and>
   field ''streamSettings''
     (sub ''outbound'' (conf_after (fst (GenConfig (Inr temp) ''198.51.100.7'' ''uuid-123'' None init_mem world0)))) =
     Some temp_streamSettings \<and>
   field ''mux''
     (sub ''outbound'' (conf_after (fst (GenConfig (Inr temp) ''198.51.100.7'' ''uuid-123'' None init_mem world0)))) =
     Some (JObj (map_of [(''enabled'', JBool True)])) \<and>
   map (sub ''port'')
     (vnext_of (conf_after (fst (GenConfig (Inr temp) ''198.51.100.7'' ''uuid-123'' None init_mem world0)))) =
     [JNum 443] \<and>
   map (\<lambda>v. map (sub ''alterId'') (users_of v))
     (vnext_of (conf_after (fst (GenConfig (Inr temp) ''198.51.100.7'' ''uuid-123'' None init_mem world0)))) =
     [[JNum 64]]"
proof -
  have valid: "valid_template temp"
    by (simp add: temp_eval)
  note frame = GenConfig_frame [OF valid, of "''198.51.100.7''" "''uuid-123''" None init_mem world0]
  have fresh: "conf init_mem = None"
    by (simp add: init_mem_def)
  from frame fresh have top:
    "same_except {''outbound''} temp
       (conf_after (fst (GenConfig (Inr temp) ''198.51.100.7'' ''uuid-123'' None init_mem world0)))"
    by blast
  from frame have out:
    "same_except {''settings''} (sub ''outbound'' temp)
       (sub ''outbound'' (conf_after (fst (GenConfig (Inr temp) ''198.51.100.7'' ''uuid-123'' None init_mem world0))))"
    by blast
  have t1: "field ''inbound'' temp = Some temp_inbound" "field ''outboundDetour'' temp = Some temp_outboundDetour"
    "field ''routing'' temp = Some temp_routing"
    by (simp_all add: temp_def field_def)
  have t2: "field ''streamSettings'' (sub ''outbound'' temp) = Some temp_streamSettings"
    "field ''mux'' (sub ''outbound'' temp) = Some (JObj (map_of [(''enabled'', JBool True)]))"
    by (simp_all add: temp_def temp_outbound_def field_def sub_def)
  have run: "vnext_of (conf_after (fst (GenConfig (Inr temp) ''198.51.100.7'' ''uuid-123'' None init_mem world0))) =
      [JObj ((map_of [(''address'', JStr ''freedomland.tk''), (''port'', JNum 443),
          (''users'', JArr [JObj (map_of [(''id'', JStr ''b831381d-6324-4d53-ad4f-8cda48b30811''),
             (''alterId'', JNum 64)])])])
        (''address'' \<mapsto> JStr ''198.51.100.7'',
         ''users'' \<mapsto> JArr [JObj ((map_of [(''id'', JStr ''b831381d-6324-4d53-ad4f-8cda48b30811''),
             (''alterId'', JNum 64)])(''id'' \<mapsto> JStr ''uuid-123''))]))]"
    by (simp add: GenConfig_def init_mem_def conf_after_def Let_def temp_eval)
  have a: "field ''inbound'' (conf_after (fst (GenConfig (Inr temp) ''198.51.100.7'' ''uuid-123'' None init_mem world0))) =
     Some temp_inbound"
    using top t1 by (simp add: same_except_def)
  have b: "field ''outboundDetour'' (conf_after (fst (GenConfig (Inr temp) ''198.51.100.7'' ''uuid-123'' None init_mem world0))) =
     Some temp_outboundDetour"
    using top t1 by (simp add: same_except_def)
  have c: "field ''routing'' (conf_after (fst (GenConfig (Inr temp) ''198.51.100.7'' ''uuid-123'' None init_mem world0))) =
     Some temp_routing"
    using top t1 by (simp add: same_except_def)
  have d: "field ''streamSettings''
     (sub ''outbound'' (conf_after (fst (GenConfig (Inr temp) ''198.51.100.7'' ''uuid-123'' None init_mem world0)))) =
     Some temp_streamSettings"
    using out t2 by (simp add: same_except_def)
  have e: "field ''mux''
     (sub ''outbound'' (conf_after (fst (GenConfig (Inr temp) ''198.51.100.7'' ''uuid-123'' None init_mem world0)))) =
     Some (JObj (map_of [(''enabled'', JBool True)]))"
    using out t2 by (simp add: same_except_def)
  show ?thesis
    using valid a b c d e by (simp add: run) (simp add: users_of_def sub_def field_def elems_def)
qed

text \<open>\<^verbatim>\<open>json.Marshal\<close> keeps what two documents have in common.\<close>

lemma field_Marshal: "field k (Marshal j) = map_option Marshal (field k j)"
  by (cases j) (simp_all add: field_def)

lemma is_obj_Marshal: "is_obj (Marshal j) = is_obj j"
  by (cases j) (simp_all add: is_obj_def)

lemma same_except_Marshal: "same_except K a b \<Longrightarrow> same_except K (Marshal a) (Marshal b)"
  by (simp add: same_except_def field_Marshal is_obj_Marshal)

lemma entry_frame_written:
  assumes "entry_set A S v v'"
  shows "same_except {''address'', ''users''} (Marshal v) (Marshal v') \<and>
         list_all2 (same_except {''id''}) (users_of (Marshal v)) (users_of (Marshal v'))"
proof -
  from assms have f: "same_except {''address'', ''users''} v v'"
    and us: "list_all2 (same_except {''id''}) (users_of v) (users_of v')"
    by (simp_all add: entry_set_frame)
  from us have "list_all2 (\<lambda>u u'. same_except {''id''} (Marshal u) (Marshal u')) (users_of v) (users_of v')"
    by (rule list_all2_mono) (rule same_except_Marshal)
  with f show ?thesis
    by (simp add: same_except_Marshal users_of_Marshal list_all2_map1 list_all2_map2)
qed

text \<open>
  The artifact keeps that frame: it differs from what \<^verbatim>\<open>json.Marshal\<close> writes for the
  template itself only at the same places.
\<close>

lemma GenConfig_frame_artifact:
  fixes T A S m w
  assumes "valid_template T"
  defines "a \<equiv> artifact (snd (GenConfig (Inr T) A S None m w))"
  shows "(\<forall>k. k \<noteq> ''outbound'' \<longrightarrow> field k T \<noteq> None \<longrightarrow> field k a = field k (Marshal T)) \<and>
         (conf m = None \<longrightarrow> same_except {''outbound''} (Marshal T) a) \<and>
         same_except {''settings''} (sub ''outbound'' (Marshal T)) (sub ''outbound'' a) \<and>
         same_except {''vnext''} (sub ''settings'' (sub ''outbound'' (Marshal T)))
           (sub ''settings'' (sub ''outbound'' a)) \<and>
         list_all2
           (\<lambda>v v'. same_except {''address'', ''users''} v v' \<and>
              list_all2 (same_except {''id''}) (users_of v) (users_of v'))
           (vnext_of (Marshal T)) (vnext_of a)"
proof -
  define wr where "wr = (None :: go_error option)"
  from assms(1) obtain c ob st vs vs' D' where T: "T = JObj c"
    and ob: "c ''outbound'' = Some (JObj ob)" and st: "ob ''settings'' = Some (JObj st)"
    and vs: "st ''vnext'' = Some (JArr vs)" and rel: "list_all2 (entry_set A S) vs vs'"
    and D': "D' = (case conf m of None \<Rightarrow> c | Some old \<Rightarrow> old ++ c)
                (''outbound'' \<mapsto> JObj (ob(''settings'' \<mapsto> JObj (st(''vnext'' \<mapsto> JArr vs')))))"
    and run: "GenConfig (Inr T) A S wr m w =
           (Return (wr, m\<lparr>conf := Some D'\<rparr>),
            case wr of None \<Rightarrow> w\<lparr>config_json := Some (Marshal (JObj D'))\<rparr> | Some err \<Rightarrow> w)"
    by (rule GenConfig_valid)
  have a: "a = Marshal (JObj D')"
    using run by (simp add: a_def wr_def artifact_def)
  have top: "\<forall>k. k \<noteq> ''outbound'' \<longrightarrow> field k T \<noteq> None \<longrightarrow> field k (JObj D') = field k T"
    by (cases "conf m") (auto simp: T D' field_def map_add_def)
  have fresh: "conf m = None \<longrightarrow> same_except {''outbound''} T (JObj D')"
    by (simp add: T D' same_except_def is_obj_def field_def)
  have out: "same_except {''settings''} (sub ''outbound'' T) (sub ''outbound'' (JObj D'))"
    by (simp add: T D' ob sub_obj same_except_def is_obj_def field_def)
  have set: "same_except {''vnext''} (sub ''settings'' (sub ''outbound'' T))
      (sub ''settings'' (sub ''outbound'' (JObj D')))"
    by (simp add: T D' ob st sub_obj same_except_def is_obj_def field_def)
  have old: "vnext_of T = vs"
    by (simp add: T ob st vs vnext_of_def sub_obj elems_def)
  have new: "vnext_of (JObj D') = vs'"
    by (simp add: D' vnext_of_def sub_obj elems_def)
  have "list_all2
      (\<lambda>v v'. same_except {''address'', ''users''} (Marshal v) (Marshal v') \<and>
         list_all2 (same_except {''id''}) (users_of (Marshal v)) (users_of (Marshal v'))) vs vs'"
    using rel by (rule list_all2_mono) (rule entry_frame_written)
  then have entries: "list_all2
      (\<lambda>v v'. same_except {''address'', ''users''} v v' \<and>
         list_all2 (same_except {''id''}) (users_of v) (users_of v'))
      (vnext_of (Marshal T)) (vnext_of (Marshal (JObj D')))"
    unfolding vnext_of_Marshal old new by (simp add: list_all2_map1 list_all2_map2)
  from top have top': "\<forall>k. k \<noteq> ''outbound'' \<longrightarrow> field k T \<noteq> None \<longrightarrow>
      field k (Marshal (JObj D')) = field k (Marshal T)"
    unfolding field_Marshal by simp
  from fresh have fresh': "conf m = None \<longrightarrow> same_except {''outbound''} (Marshal T) (Marshal (JObj D'))"
    by (blast intro: same_except_Marshal)
  from out have out': "same_except {''settings''} (sub ''outbound'' (Marshal T))
      (sub ''outbound'' (Marshal (JObj D')))"
    unfolding sub_Marshal by (rule same_except_Marshal)
  from set have set': "same_except {''vnext''} (sub ''settings'' (sub ''outbound'' (Marshal T)))
      (sub ''settings'' (sub ''outbound'' (Marshal (JObj D'))))"
    unfolding sub_Marshal by (rule same_except_Marshal)
  from top' fresh' out' set' entries show ?thesis
    unfolding a by blast
qed

lemma merged_again:
  assumes "c k = Some j" and "D = (case cf of None \<Rightarrow> c | Some old \<Rightarrow> old ++ c)"
  shows "(D(k \<mapsto> j')) ++ c = D"
proof (rule ext)
  fix x
  show "((D(k \<mapsto> j')) ++ c) x = D x"
    using assms by (cases cf) (auto simp: map_add_def split: option.splits)
qed

text \<open>
  C8. After a call of \<^verbatim>\<open>GenConfig\<close> on a template of the expected shape that wrote the
  artifact (the encoding of the document in \<^verbatim>\<open>conf\<close>), a second call with the same
  template, address and secret returns nil and leaves the memory and the world exactly as
  the first call left them: it decodes into the map the first call filled and writes the
  same document again.
\<close>

theorem GenConfig_twice:
  assumes "valid_template T"
    and "GenConfig (Inr T) A S None m w = (Return (e1, m1), w1)"
  shows "e1 = None \<and>
         config_json w1 = Some (Marshal (conf_after (Return (e1, m1)))) \<and>
         GenConfig (Inr T) A S None m1 w1 = (Return (None, m1), w1)"
proof -
  from assms(1) obtain c ob st vs where parts: "T = JObj c" "c ''outbound'' = Some (JObj ob)"
    "ob ''settings'' = Some (JObj st)" "st ''vnext'' = Some (JArr vs)"
    "list_all valid_vnext_entry vs"
    by (rule valid_template_parts)
  from set_vnext_ok [OF parts(5), of A S] obtain vs' where
    vs': "set_vnext A S vs = Return vs'"
    by blast
  define D where "D = (case conf m of None \<Rightarrow> c | Some old \<Rightarrow> old ++ c)"
  define D' where "D' = D(''outbound'' \<mapsto> JObj (ob(''settings'' \<mapsto> JObj (st(''vnext'' \<mapsto> JArr vs')))))"
  have first: "GenConfig (Inr (JObj c)) A S None m w =
      (Return (None, m\<lparr>conf := Some D'\<rparr>), w\<lparr>config_json := Some (Marshal (JObj D'))\<rparr>)"
    using GenConfig_descend [OF parts(2-4) vs' D_def D'_def, of None w] by simp
  with assms(2) parts(1) have res: "e1 = None" "m1 = m\<lparr>conf := Some D'\<rparr>"
    "w1 = w\<lparr>config_json := Some (Marshal (JObj D'))\<rparr>"
    by simp_all
  have "D' ++ c = D"
    unfolding D'_def using parts(2) D_def by (rule merged_again)
  then have again: "(case conf m1 of None \<Rightarrow> c | Some old \<Rightarrow> old ++ c) = D"
    by (simp add: res(2))
  have second: "GenConfig (Inr (JObj c)) A S None m1 w1 =
      (Return (None, m1\<lparr>conf := Some D'\<rparr>), w1\<lparr>config_json := Some (Marshal (JObj D'))\<rparr>)"
    using GenConfig_descend [OF parts(2-4) vs' again [symmetric] D'_def, of None w1] by simp
  have "m1\<lparr>conf := Some D'\<rparr> = m1" "w1\<lparr>config_json := Some (Marshal (JObj D'))\<rparr> = w1"
    by (simp_all add: res)
  with second parts(1) res show ?thesis
    by (simp add: conf_after_def)
qed

text \<open>Two calls on the template of the program, in a fresh process.\<close>

theorem GenConfig_twice_witness:
  "valid_template temp \<and>
   returned (fst (GenConfig (Inr temp) ''198.51.100.7'' ''uuid-123'' None init_mem world0)) = Return None \<and>
   (\<exists>m1 w1.
      GenConfig (Inr temp) ''198.51.100.7'' ''uuid-123'' None init_mem world0 = (Return (None, m1), w1) \<and>
      config_json w1 = Some (Marshal (conf_after (Return (None :: go_error option, m1)))) \<and>
      GenConfig (Inr temp) ''198.51.100.7'' ''uuid-123'' None m1 w1 = (Return (None, m1), w1))"
proof -
  have valid: "valid_template temp"
    by (simp add: temp_eval)
  obtain r w1 where run: "GenConfig (Inr temp) ''198.51.100.7'' ''uuid-123'' None init_mem world0 = (r, w1)"
    by (cases "GenConfig (Inr temp) ''198.51.100.7'' ''uuid-123'' None init_mem world0")
  have ret: "returned (fst (GenConfig (Inr temp) ''198.51.100.7'' ''uuid-123'' None init_mem world0)) = Return None"
    using valid by (rule GenConfig_valid_returns)
  with run obtain m1 where r: "r = Return (None, m1)"
    by (cases r) (auto simp: returned_def)
  from GenConfig_twice [OF valid run [unfolded r]] run r ret valid show ?thesis
    by auto
qed

lemma GenConfig_returns_valid:
  assumes "conf m = None" and "fst (GenConfig (Inr (JObj c)) A S wr m w) \<noteq> Panic"
  shows "valid_template (JObj c)"
proof -
  from assms obtain ob where ob: "c ''outbound'' = Some (JObj ob)"
    by (auto simp: GenConfig_def split: option.splits json.splits)
  from assms ob obtain st where st: "ob ''settings'' = Some (JObj st)"
    by (auto simp: GenConfig_def split: option.splits json.splits)
  from assms ob st obtain vs where vs: "st ''vnext'' = Some (JArr vs)"
    by (auto simp: GenConfig_def split: option.splits json.splits)
  from assms ob st vs have "set_vnext A S vs \<noteq> Panic"
    by (auto simp: GenConfig_def)
  then have "list_all valid_vnext_entry vs"
    using set_vnext_panic by blast
  with ob st vs show ?thesis
    by (simp add: valid_template_def vnext_of_def sub_obj elems_def is_obj_def is_arr_def)
qed

lemma GenConfig_world_on_panic:
  "fst (GenConfig decoded A S wr m w) = Panic \<Longrightarrow> snd (GenConfig decoded A S wr m w) = w"
  by (auto simp: GenConfig_def Let_def split: prod.splits option.splits json.splits result.splits)

text \<open>
  C4 (as amended). \<^verbatim>\<open>GenConfig\<close> has no error for a template of the wrong shape. In a fresh
  process a template that is an object but lacks the \<^verbatim>\<open>outbound\<close> block, or has a value
  of the wrong type at a step of the descent, makes it panic with nothing written, and so
  does the template \<^verbatim>\<open>null\<close>. A template that is no object (and not \<^verbatim>\<open>null\<close>), or
  that does not decode at all, makes it return the decoder's error. A template of the
  expected shape, with a server list of any length, makes it return the outcome of the
  write: nil, or the write's error with nothing written.
\<close>

theorem GenConfig_shape_deviation:
  "(conf m = None \<longrightarrow> is_obj T \<longrightarrow> \<not> valid_template T \<longrightarrow>
      GenConfig (Inr T) A S wr m w = (Panic, w)) \<and>
   (T = JNull \<longrightarrow> GenConfig (Inr T) A S wr m w = (Panic, w)) \<and>
   (\<not> is_obj T \<longrightarrow> T \<noteq> JNull \<longrightarrow>
      (\<exists>err. GenConfig (Inr T) A S wr m w = (Return (Some err, m), w))) \<and>
   GenConfig (Inl e) A S wr m w = (Return (Some e, m), w) \<and>
   (valid_template T \<longrightarrow>
      returned (fst (GenConfig (Inr T) A S wr m w)) = Return wr \<and>
      (wr \<noteq> None \<longrightarrow> snd (GenConfig (Inr T) A S wr m w) = w))"
proof -
  have shape: "conf m = None \<longrightarrow> is_obj T \<longrightarrow> \<not> valid_template T \<longrightarrow>
      GenConfig (Inr T) A S wr m w = (Panic, w)"
  proof (intro impI)
    assume fresh: "conf m = None" and "is_obj T" and bad: "\<not> valid_template T"
    then obtain c where T: "T = JObj c" by (auto elim: is_objE)
    from fresh bad T have p: "fst (GenConfig (Inr T) A S wr m w) = Panic"
      using GenConfig_returns_valid by blast
    then have "snd (GenConfig (Inr T) A S wr m w) = w"
      by (rule GenConfig_world_on_panic)
    with p show "GenConfig (Inr T) A S wr m w = (Panic, w)"
      by (simp add: prod_eq_iff)
  qed
  have null: "T = JNull \<longrightarrow> GenConfig (Inr T) A S wr m w = (Panic, w)"
    by (simp add: GenConfig_def)
  have other: "\<not> is_obj T \<longrightarrow> T \<noteq> JNull \<longrightarrow>
      (\<exists>err. GenConfig (Inr T) A S wr m w = (Return (Some err, m), w))"
    by (cases T) (simp_all add: GenConfig_def is_obj_def)
  have nojson: "GenConfig (Inl e) A S wr m w = (Return (Some e, m), w)"
    by (simp add: GenConfig_def)
  have valid: "valid_template T \<longrightarrow>
      returned (fst (GenConfig (Inr T) A S wr m w)) = Return wr \<and>
      (wr \<noteq> None \<longrightarrow> snd (GenConfig (Inr T) A S wr m w) = w)"
  proof
    assume v: "valid_template T"
    then obtain D' where "GenConfig (Inr T) A S wr m w =
        (Return (wr, m\<lparr>conf := Some D'\<rparr>),
         case wr of None \<Rightarrow> w\<lparr>config_json := Some (Marshal (JObj D'))\<rparr> | Some err \<Rightarrow> w)"
      by (rule GenConfig_valid)
    then show "returned (fst (GenConfig (Inr T) A S wr m w)) = Return wr \<and>
      (wr \<noteq> None \<longrightarrow> snd (GenConfig (Inr T) A S wr m w) = w)"
      by (auto simp: returned_def)
  qed
  from shape null other nojson valid show ?thesis by blast
qed

lemmas shape_eval = valid_template_def valid_vnext_entry_def
  is_obj_def is_arr_def sub_def field_def elems_def vnext_of_def users_of_def

text \<open>
  C4 as stated fails: a template without the \<^verbatim>\<open>outbound\<close> block makes \<^verbatim>\<open>GenConfig\<close>
  panic, and a template with two server entries is not an error: both entries get the
  address.
\<close>

theorem GenConfig_shape_counterexample:
  "returned (fst (GenConfig (Inr no_outbound) ''198.51.100.7'' ''uuid-123'' None init_mem world0)) = Panic \<and>
   returned (fst (GenConfig (Inr two_servers) ''198.51.100.7'' ''uuid-123'' None init_mem world0)) = Return None \<and>
   map (sub ''address'')
     (vnext_of (conf_after (fst (GenConfig (Inr two_servers) ''198.51.100.7'' ''uuid-123'' None init_mem world0)))) =
     [JStr ''198.51.100.7'', JStr ''198.51.100.7'']"
  by (simp add: GenConfig_def returned_def conf_after_def init_mem_def no_outbound_def two_servers_def
      Let_def shape_eval)

text \<open>
  A template without \<^verbatim>\<open>outbound\<close>, the template \<^verbatim>\<open>null\<close>, an array as template, a
  template with two server entries, and the template of the program with a write that
  fails.
\<close>

theorem GenConfig_shape_deviation_witness:
  "conf init_mem = None \<and> is_obj no_outbound \<and> \<not> valid_template no_outbound \<and>
   GenConfig (Inr no_outbound) ''198.51.100.7'' ''uuid-123'' None init_mem world0 = (Panic, world0) \<and>
   GenConfig (Inr JNull) ''198.51.100.7'' ''uuid-123'' None init_mem world0 = (Panic, world0) \<and>
   \<not> is_obj (JArr []) \<and>
   (\<exists>err. GenConfig (Inr (JArr [])) ''198.51.100.7'' ''uuid-123'' None init_mem world0 =
      (Return (Some err, init_mem), world0)) \<and>
   valid_template two_servers \<and>
   returned (fst (GenConfig (Inr two_servers) ''198.51.100.7'' ''uuid-123'' None init_mem world0)) = Return None \<and>
   valid_template temp \<and>
   returned (fst (GenConfig (Inr temp) ''198.51.100.7'' ''uuid-123''
      (Some (GoError ''open .config.json: permission denied'')) init_mem world0)) =
     Return (Some (GoError ''open .config.json: permission denied'')) \<and>
   snd (GenConfig (Inr temp) ''198.51.100.7'' ''uuid-123''
      (Some (GoError ''open .config.json: permission denied'')) init_mem world0) = world0"
proof -
  have a: "conf init_mem = None" "is_obj no_outbound" "\<not> valid_template no_outbound"
    "\<not> is_obj (JArr [])" "JArr [] \<noteq> JNull"
    by (simp_all add: init_mem_def no_outbound_def shape_eval)
  have b: "valid_template two_servers"
    by (simp add: two_servers_def shape_eval)
  have c: "valid_template temp"
    by (simp add: temp_eval)
  show ?thesis
    using GenConfig_shape_deviation [of init_mem no_outbound "''198.51.100.7''" "''uuid-123''" None world0]
      GenConfig_shape_deviation [of init_mem JNull "''198.51.100.7''" "''uuid-123''" None world0]
      GenConfig_shape_deviation [of init_mem "JArr []" "''198.51.100.7''" "''uuid-123''" None world0]
      GenConfig_shape_deviation [of init_mem two_servers "''198.51.100.7''" "''uuid-123''" None world0]
      GenConfig_shape_deviation [of init_mem temp "''198.51.100.7''" "''uuid-123''"
        "Some (GoError ''open .config.json: permission denied'')" world0]
      a b c
    by simp
qed

section \<open>Properties of the program\<close>

text \<open>
  When \<^verbatim>\<open>main\<close> returns or panics, the deferred call has removed the artifact.
\<close>

lemma main_removes_on_return:
  "fst (main f e w) = Returned \<or> fst (main f e w) = Panicked \<Longrightarrow> config_json (snd (main f e w)) = None"
  by (auto simp: main_def split: prod.splits exit.splits)

lemmas main_eval = main_def main_body_def ConfirmAccess_def getKeyFile_def RetrieveIP_def GenConfig_def
  startV2Ray_def Println_def scan_eval Let_def init_mem_def world_configured_def world_key_def world0_def
  flags_plugin_def env_ok_def temp_def temp_outbound_def temp_vnext_def

text \<open>
  C9. The claim fails on the paths that end in \<^verbatim>\<open>os.Exit\<close>: with the identity
  configured, the entitlement check passed, the node resolved and the artifact written, a
  failure of \<^verbatim>\<open>core.LoadPlugins\<close> (with \<^verbatim>\<open>-plugin\<close>) or of \<^verbatim>\<open>core.New\<close> ends the process
  with status -1 and the artifact still there. The same run without a failure returns, and
  the artifact is gone.
\<close>

theorem main_exit_keeps_artifact:
  "fst (main flags_plugin (env_ok\<lparr>LoadPlugins := Some (GoError ''plugin: not implemented'')\<rparr>) world_configured) =
     Exited (- 1) \<and>
   config_json (snd (main flags_plugin (env_ok\<lparr>LoadPlugins := Some (GoError ''plugin: not implemented'')\<rparr>)
     world_configured)) \<noteq> None \<and>
   fst (main (flags_plugin\<lparr>plugin := False\<rparr>)
     (env_ok\<lparr>core_New := (\<lambda>config. Some (GoError ''unknown config''))\<rparr>) world_configured) = Exited (- 1) \<and>
   config_json (snd (main (flags_plugin\<lparr>plugin := False\<rparr>)
     (env_ok\<lparr>core_New := (\<lambda>config. Some (GoError ''unknown config''))\<rparr>) world_configured)) \<noteq> None \<and>
   fst (main flags_plugin env_ok world_configured) = Returned \<and>
   config_json (snd (main flags_plugin env_ok world_configured)) = None"
  by (simp add: main_eval)

end
